theory Spec2Isabelle
  imports Main
begin

section \<open>Python strings\<close>

text \<open>
  A Python \<open>str\<close> is modelled as a \<^typ>\<open>string\<close>: a list of code points below 256.
  The string methods used by \<open>all2webp_webm.py\<close> are given on that range as the
  interpreter defines them there.
\<close>

definition isspace :: "char \<Rightarrow> bool" where
  \<comment> \<open>\<open>str.isspace\<close> on one character: TAB..CR, FS..US, space, NEL, NBSP.\<close>
  "isspace c =
     (let n = (of_char c :: nat)
      in (9 \<le> n \<and> n \<le> 13) \<or> (28 \<le> n \<and> n \<le> 32) \<or> n = 133 \<or> n = 160)"

definition strip :: "string \<Rightarrow> string" where
  \<comment> \<open>\<open>str.strip()\<close>: leading and trailing whitespace removed.\<close>
  "strip s = rev (dropWhile isspace (rev (dropWhile isspace s)))"

definition isdecimal_char :: "char \<Rightarrow> bool" where
  \<comment> \<open>the ASCII digits \<open>0\<close>..\<open>9\<close>.\<close>
  "isdecimal_char c = (let n = (of_char c :: nat) in 48 \<le> n \<and> n \<le> 57)"

definition isdigit_char :: "char \<Rightarrow> bool" where
  \<comment> \<open>\<open>str.isdigit\<close> on one character: the ASCII digits and the superscripts
      two, three and one (code points 178, 179, 185).\<close>
  "isdigit_char c =
     (let n = (of_char c :: nat) in isdecimal_char c \<or> n = 178 \<or> n = 179 \<or> n = 185)"

definition isdigit :: "string \<Rightarrow> bool" where
  \<comment> \<open>\<open>str.isdigit()\<close>: false on the empty string.\<close>
  "isdigit s = (s \<noteq> [] \<and> list_all isdigit_char s)"

definition digit_val :: "char \<Rightarrow> nat" where
  "digit_val c = of_char c - 48"

definition digits_value :: "string \<Rightarrow> nat" where
  \<comment> \<open>the number a string of ASCII digits denotes in base ten.\<close>
  "digits_value s = foldl (\<lambda>a c. 10 * a + digit_val c) 0 s"

definition int_of_str :: "string \<Rightarrow> nat option" where
  \<comment> \<open>\<open>int(s)\<close> for a string on which \<open>isdigit\<close> holds: \<open>None\<close> stands for the
      \<open>ValueError\<close> raised when a character is not an ASCII digit. Python integers
      are unbounded; the interpreter's limit on the number of digits that \<open>int\<close> converts
      is not modelled.\<close>
  "int_of_str s = (if s \<noteq> [] \<and> list_all isdecimal_char s then Some (digits_value s) else None)"

definition digit_char :: "nat \<Rightarrow> char" where
  "digit_char d = char_of (48 + d)"

fun str_nat :: "nat \<Rightarrow> string" where
  \<comment> \<open>\<open>f"{n}"\<close> for a non-negative integer: its decimal numeral.\<close>
  "str_nat n = (if n < 10 then [digit_char n] else str_nat (n div 10) @ [digit_char (n mod 10)])"

declare str_nat.simps [simp del]

definition lower_char :: "char \<Rightarrow> char" where
  \<comment> \<open>\<open>str.lower\<close> on one character: \<open>A\<close>..\<open>Z\<close> and the Latin-1 capitals
      (192..222 except the multiplication sign 215) move up by 32.\<close>
  "lower_char c =
     (let n = (of_char c :: nat)
      in if (65 \<le> n \<and> n \<le> 90) \<or> (192 \<le> n \<and> n \<le> 222 \<and> n \<noteq> 215)
         then char_of (n + 32) else c)"

definition lower :: "string \<Rightarrow> string" where
  "lower s = map lower_char s"

section \<open>Subprocesses and the console\<close>

text \<open>
  \<open>subprocess.run(cmd, capture_output=True, text=True, check=True)\<close> either returns a
  completed process, of which the script reads the standard output only, or raises:
  \<open>CalledProcessError\<close> on a non-zero exit status (carrying the captured standard
  error), \<open>FileNotFoundError\<close> when the executable is missing, or another
  \<open>Exception\<close>. \<open>OtherException\<close> also stands for the exception of a query of the file
  system. An interrupt of the interpreter from outside (\<open>KeyboardInterrupt\<close>) is
  not part of the model, and \<open>print\<close> is taken to succeed.
\<close>

datatype proc_error =
    CalledProcessError string
  | FileNotFoundError
  | OtherException

datatype run_outcome =
    Completed string
  | Raised proc_error

text \<open>
  The console messages are kept as structured values, one constructor for each
  \<open>print\<close> of the script, carrying the values that are formatted into the text.
\<close>

datatype message =
    Msg_tools_missing                    \<comment> \<open>line 25\<close>
  | Msg_skip_exists string               \<comment> \<open>line 82\<close>
  | Msg_converting string string         \<comment> \<open>lines 95, 134, 159\<close>
  | Msg_convert_error string string      \<comment> \<open>lines 99, 138, 163\<close>
  | Msg_video_bitrate_default string     \<comment> \<open>line 108\<close>
  | Msg_video_bitrate_found string       \<comment> \<open>line 110\<close>
  | Msg_video_no_audio                   \<comment> \<open>line 123\<close>
  | Msg_audio_no_stream string           \<comment> \<open>line 143\<close>
  | Msg_audio_bitrate_default string     \<comment> \<open>line 149\<close>
  | Msg_audio_bitrate_found string       \<comment> \<open>line 151\<close>
  | Msg_not_a_directory string           \<comment> \<open>line 179\<close>

datatype event =
    Run "string list"      \<comment> \<open>a call of \<open>subprocess.run\<close> with this argument list\<close>
  | Print message          \<comment> \<open>a call of \<open>print\<close>\<close>
  | Walk string            \<comment> \<open>the call of \<open>os.walk\<close> on this directory\<close>

text \<open>
  The operating system is a parameter: a state of type \<open>'w\<close> and the operations the
  script performs on it. Running a process may change the state. \<open>Path.exists\<close> and
  \<open>Path.is_dir\<close> return a boolean or raise the \<open>OSError\<close> of \<open>stat\<close> that they do not
  ignore (a name that is too long, a directory that may not be searched), and
  \<open>Path.resolve\<close> returns a path or raises on a loop of symbolic links: \<open>None\<close> stands
  for the exception, which the script never catches.
\<close>

record 'w system =
  run_proc :: "string list \<Rightarrow> 'w \<Rightarrow> run_outcome \<times> 'w"
  path_exists :: "string \<Rightarrow> 'w \<Rightarrow> bool option"
  path_resolve :: "string \<Rightarrow> 'w \<Rightarrow> string option"
  path_is_dir :: "string \<Rightarrow> 'w \<Rightarrow> bool option"
  os_walk :: "string \<Rightarrow> 'w \<Rightarrow> (string \<times> string list) list"

text \<open>The state threaded through the script: the system state and the events so far.\<close>

type_synonym 'w st = "'w \<times> event list"

definition subprocess_run :: "'w system \<Rightarrow> string list \<Rightarrow> 'w st \<Rightarrow> run_outcome \<times> 'w st" where
  "subprocess_run sys cmd s =
     (case s of (w, tr) \<Rightarrow>
        (case run_proc sys cmd w of (r, w') \<Rightarrow> (r, (w', tr @ [Run cmd]))))"

definition print :: "message \<Rightarrow> 'w st \<Rightarrow> 'w st" where
  "print m s = (case s of (w, tr) \<Rightarrow> (w, tr @ [Print m]))"

section \<open>Stream probing\<close>

definition audio_streams_cmd :: "string \<Rightarrow> string list" where
  "audio_streams_cmd file_path =
     [''ffprobe'', ''-v'', ''error'',
      ''-select_streams'', ''a'',
      ''-show_entries'', ''stream=index'',
      ''-of'', ''default=noprint_wrappers=1:nokey=1'',
      file_path]"

definition has_audio_stream :: "'w system \<Rightarrow> string \<Rightarrow> 'w st \<Rightarrow> bool \<times> 'w st" where
  "has_audio_stream sys file_path s =
     (case subprocess_run sys (audio_streams_cmd file_path) s of
        (Completed out, s') \<Rightarrow> (strip out \<noteq> [], s')
      | (Raised e, s') \<Rightarrow> (False, s'))"

definition audio_bitrate_cmd :: "string \<Rightarrow> string list" where
  "audio_bitrate_cmd file_path =
     [''ffprobe'', ''-v'', ''error'',
      ''-select_streams'', ''a:0'',
      ''-show_entries'', ''stream=bit_rate'',
      ''-of'', ''default=noprint_wrappers=1:nokey=1'',
      file_path]"

definition bitrate_of_stdout :: "string \<Rightarrow> string option" where
  \<comment> \<open>lines 62 to 75 of \<open>get_audio_bitrate\<close>; the \<open>ValueError\<close> of \<open>int\<close> is caught
      by the handler of line 76.\<close>
  "bitrate_of_stdout out =
     (let bitrate_str = strip out
      in if bitrate_str \<noteq> [] \<and> isdigit bitrate_str then
           (case int_of_str bitrate_str of
              None \<Rightarrow> None
            | Some bitrate_bps \<Rightarrow>
                if bitrate_bps = 0 then None
                else
                  let kbps = bitrate_bps div 1000;
                      kbps = (if kbps < 8 then 8 else if kbps > 510 then 510 else kbps)
                  in Some (str_nat kbps @ ''k''))
         else None)"

definition get_audio_bitrate :: "'w system \<Rightarrow> string \<Rightarrow> 'w st \<Rightarrow> string option \<times> 'w st" where
  "get_audio_bitrate sys file_path s =
     (case subprocess_run sys (audio_bitrate_cmd file_path) s of
        (Completed out, s') \<Rightarrow> (bitrate_of_stdout out, s')
      | (Raised e, s') \<Rightarrow> (None, s'))"

section \<open>Paths\<close>

text \<open>
  A \<open>pathlib.Path\<close> made by \<open>Path(dirpath) / filename\<close> is kept as the directory string
  that \<open>os.walk\<close> yielded and the final component. \<open>suffix\<close> and \<open>with_suffix\<close> follow
  \<open>pathlib.PurePath\<close> (\<open>name.rfind('.')\<close>, \<open>0 < i < len(name) - 1\<close>).
\<close>

record path =
  p_dir :: string
  p_name :: string

definition str_path :: "path \<Rightarrow> string" where
  \<comment> \<open>\<open>str(path)\<close>\<close>
  "str_path p = (if p_dir p = ''/'' then ''/'' @ p_name p else p_dir p @ ''/'' @ p_name p)"

definition rfind_dot :: "string \<Rightarrow> nat option" where
  \<comment> \<open>\<open>name.rfind('.')\<close>; \<open>None\<close> stands for -1.\<close>
  "rfind_dot name =
     (let k = length (takeWhile (\<lambda>c. c \<noteq> CHR ''.'') (rev name))
      in if k = length name then None else Some (length name - 1 - k))"

definition name_suffix :: "string \<Rightarrow> string" where
  "name_suffix name =
     (case rfind_dot name of
        None \<Rightarrow> []
      | Some i \<Rightarrow> if 0 < i \<and> i < length name - 1 then drop i name else [])"

definition suffix :: "path \<Rightarrow> string" where
  "suffix p = name_suffix (p_name p)"

definition with_suffix :: "path \<Rightarrow> string \<Rightarrow> path" where
  \<comment> \<open>\<open>with_suffix\<close> raises \<open>ValueError\<close> on an empty name and on a malformed new
      suffix; \<open>main\<close> calls it with \<open>'.webp'\<close> or \<open>'.webm'\<close> on a path whose suffix is
      not empty.\<close>
  "with_suffix p new_suffix =
     (let name = p_name p; old_suffix = suffix p
      in p\<lparr>p_name :=
           (if old_suffix = [] then name @ new_suffix
            else take (length name - length old_suffix) name @ new_suffix)\<rparr>)"

section \<open>Extension sets\<close>

definition IMAGE_EXTS :: "string set" where
  "IMAGE_EXTS = {''.jpg'', ''.jpeg'', ''.png'', ''.gif'', ''.bmp'', ''.tiff'', ''.tif'',
                 ''.webp'', ''.apng''}"

definition VIDEO_EXTS :: "string set" where
  "VIDEO_EXTS = {''.mp4'', ''.avi'', ''.mov'', ''.mkv'', ''.flv'', ''.wmv'', ''.m4v'',
                 ''.mpg'', ''.mpeg''}"

definition AUDIO_EXTS :: "string set" where
  "AUDIO_EXTS = {''.mp3'', ''.flac'', ''.wav'', ''.aac'', ''.ogg'', ''.m4a'', ''.wma'',
                 ''.opus''}"

section \<open>Dependency check\<close>

text \<open>
  \<open>sys.exit(n)\<close> and an exception that no handler catches both end the run; the
  interpreter exits with status 1 on an uncaught exception.
\<close>

datatype abort =
    SysExit nat
  | Uncaught proc_error

definition check_handler :: "proc_error \<Rightarrow> 'w st \<Rightarrow> (abort + unit) \<times> 'w st" where
  \<comment> \<open>the \<open>except (CalledProcessError, FileNotFoundError)\<close> clause of lines 24 to 26.\<close>
  "check_handler e s =
     (case e of
        CalledProcessError err \<Rightarrow> (Inl (SysExit 1), print Msg_tools_missing s)
      | FileNotFoundError \<Rightarrow> (Inl (SysExit 1), print Msg_tools_missing s)
      | OtherException \<Rightarrow> (Inl (Uncaught e), s))"

definition check_ffmpeg :: "'w system \<Rightarrow> 'w st \<Rightarrow> (abort + unit) \<times> 'w st" where
  "check_ffmpeg sys s =
     (case subprocess_run sys [''ffmpeg'', ''-version''] s of
        (Raised e, s1) \<Rightarrow> check_handler e s1
      | (Completed out1, s1) \<Rightarrow>
          (case subprocess_run sys [''ffprobe'', ''-version''] s1 of
             (Raised e, s2) \<Rightarrow> check_handler e s2
           | (Completed out2, s2) \<Rightarrow> (Inr (), s2)))"

section \<open>Conversion of one file\<close>

text \<open>
  \<open>convert_file\<close> returns \<open>None\<close> on every path. The model's result names the path
  that was taken; \<open>Inl\<close> is an exception that leaves the function.
\<close>

datatype outcome =
    Skipped_exists       \<comment> \<open>the return of line 83\<close>
  | Converted            \<comment> \<open>the transcoder returned with status zero\<close>
  | Failed               \<comment> \<open>the handler of \<open>CalledProcessError\<close> ran\<close>
  | Skipped_no_audio     \<comment> \<open>the return of line 144\<close>
  | Unknown_type         \<comment> \<open>no branch of the \<open>if\<close>/\<open>elif\<close> chain matched\<close>

definition run_ffmpeg :: "'w system \<Rightarrow> string list \<Rightarrow> path \<Rightarrow> 'w st \<Rightarrow> (proc_error + outcome) \<times> 'w st" where
  \<comment> \<open>the \<open>try\<close> statement of lines 96 to 99, 135 to 138 and 160 to 163.\<close>
  "run_ffmpeg sys cmd input_path s =
     (case subprocess_run sys cmd s of
        (Completed out, s') \<Rightarrow> (Inr Converted, s')
      | (Raised (CalledProcessError err), s') \<Rightarrow>
          (Inr Failed, print (Msg_convert_error (str_path input_path) err) s')
      | (Raised e, s') \<Rightarrow> (Inl e, s'))"

definition image_cmd :: "path \<Rightarrow> path \<Rightarrow> string list" where
  "image_cmd input_path output_path =
     [''ffmpeg'', ''-i'', str_path input_path,
      ''-c:v'', ''libwebp'',
      ''-lossless'', ''1'',
      ''-compression_level'', ''6'',
      ''-loop'', ''0'',
      ''-an'',
      ''-y'', str_path output_path]"

definition video_audio_cmd :: "path \<Rightarrow> path \<Rightarrow> string \<Rightarrow> string list" where
  "video_audio_cmd input_path output_path audio_bitrate =
     [''ffmpeg'', ''-i'', str_path input_path,
      ''-c:v'', ''libvpx-vp9'',
      ''-lossless'', ''1'',
      ''-b:v'', ''0'',
      ''-pix_fmt'', ''yuva420p'',
      ''-c:a'', ''libopus'',
      ''-b:a'', audio_bitrate,
      ''-y'', str_path output_path]"

definition video_only_cmd :: "path \<Rightarrow> path \<Rightarrow> string list" where
  "video_only_cmd input_path output_path =
     [''ffmpeg'', ''-i'', str_path input_path,
      ''-c:v'', ''libvpx-vp9'',
      ''-lossless'', ''1'',
      ''-b:v'', ''0'',
      ''-pix_fmt'', ''yuva420p'',
      ''-an'',
      ''-y'', str_path output_path]"

definition audio_cmd :: "path \<Rightarrow> path \<Rightarrow> string \<Rightarrow> string list" where
  "audio_cmd input_path output_path audio_bitrate =
     [''ffmpeg'', ''-i'', str_path input_path,
      ''-c:a'', ''libopus'',
      ''-b:a'', audio_bitrate,
      ''-y'', str_path output_path]"

definition convert_image :: "'w system \<Rightarrow> path \<Rightarrow> path \<Rightarrow> 'w st \<Rightarrow> (proc_error + outcome) \<times> 'w st" where
  \<comment> \<open>lines 86 to 99.\<close>
  "convert_image sys input_path output_path s =
     run_ffmpeg sys (image_cmd input_path output_path) input_path
       (print (Msg_converting (str_path input_path) (str_path output_path)) s)"

definition convert_video :: "'w system \<Rightarrow> path \<Rightarrow> path \<Rightarrow> string \<Rightarrow> 'w st \<Rightarrow> (proc_error + outcome) \<times> 'w st" where
  \<comment> \<open>lines 102 to 138.\<close>
  "convert_video sys input_path output_path default_bitrate s =
     (case has_audio_stream sys (str_path input_path) s of
        (True, s1) \<Rightarrow>
          (case get_audio_bitrate sys (str_path input_path) s1 of
             (None, s2) \<Rightarrow>
               run_ffmpeg sys (video_audio_cmd input_path output_path default_bitrate) input_path
                 (print (Msg_converting (str_path input_path) (str_path output_path))
                    (print (Msg_video_bitrate_default default_bitrate) s2))
           | (Some audio_bitrate, s2) \<Rightarrow>
               run_ffmpeg sys (video_audio_cmd input_path output_path audio_bitrate) input_path
                 (print (Msg_converting (str_path input_path) (str_path output_path))
                    (print (Msg_video_bitrate_found audio_bitrate) s2)))
      | (False, s1) \<Rightarrow>
          run_ffmpeg sys (video_only_cmd input_path output_path) input_path
            (print (Msg_converting (str_path input_path) (str_path output_path))
               (print Msg_video_no_audio s1)))"

definition convert_audio :: "'w system \<Rightarrow> path \<Rightarrow> path \<Rightarrow> string \<Rightarrow> 'w st \<Rightarrow> (proc_error + outcome) \<times> 'w st" where
  \<comment> \<open>lines 142 to 163.\<close>
  "convert_audio sys input_path output_path default_bitrate s =
     (case has_audio_stream sys (str_path input_path) s of
        (False, s1) \<Rightarrow>
          (Inr Skipped_no_audio, print (Msg_audio_no_stream (str_path input_path)) s1)
      | (True, s1) \<Rightarrow>
          (case get_audio_bitrate sys (str_path input_path) s1 of
             (None, s2) \<Rightarrow>
               run_ffmpeg sys (audio_cmd input_path output_path default_bitrate) input_path
                 (print (Msg_converting (str_path input_path) (str_path output_path))
                    (print (Msg_audio_bitrate_default default_bitrate) s2))
           | (Some audio_bitrate, s2) \<Rightarrow>
               run_ffmpeg sys (audio_cmd input_path output_path audio_bitrate) input_path
                 (print (Msg_converting (str_path input_path) (str_path output_path))
                    (print (Msg_audio_bitrate_found audio_bitrate) s2))))"

definition convert_file ::
  "'w system \<Rightarrow> path \<Rightarrow> path \<Rightarrow> string \<Rightarrow> bool \<Rightarrow> string \<Rightarrow> 'w st \<Rightarrow> (proc_error + outcome) \<times> 'w st" where
  "convert_file sys input_path output_path file_type force default_bitrate s =
     (case path_exists sys (str_path output_path) (fst s) of
        None \<Rightarrow> (Inl OtherException, s)
      | Some output_exists \<Rightarrow>
          if output_exists \<and> \<not> force then
            (Inr Skipped_exists, print (Msg_skip_exists (str_path output_path)) s)
          else if file_type = ''image'' then convert_image sys input_path output_path s
          else if file_type = ''video'' then
            convert_video sys input_path output_path default_bitrate s
          else if file_type = ''audio'' then
            convert_audio sys input_path output_path default_bitrate s
          else (Inr Unknown_type, s))"

section \<open>The run\<close>

record args =
  input_dir :: string
  force :: bool
  default_bitrate :: string

definition tag_outcome ::
  "path \<Rightarrow> (proc_error + outcome) \<times> 'w st \<Rightarrow> (proc_error + (string \<times> outcome) list) \<times> 'w st" where
  \<comment> \<open>the file of a task paired with the outcome of its \<open>convert_file\<close> call.\<close>
  "tag_outcome input_path r =
     (case r of
        (Inl e, s') \<Rightarrow> (Inl e, s')
      | (Inr oc, s') \<Rightarrow> (Inr [(str_path input_path, oc)], s'))"

definition convert_entry ::
  "'w system \<Rightarrow> args \<Rightarrow> string \<Rightarrow> string \<Rightarrow> 'w st \<Rightarrow> (proc_error + (string \<times> outcome) list) \<times> 'w st" where
  \<comment> \<open>the body of the inner loop, lines 184 to 195; the result lists the file with the
      outcome of its task, and is empty when no extension set matches.\<close>
  "convert_entry sys a dirpath filename s =
     (let input_path = \<lparr>p_dir = dirpath, p_name = filename\<rparr>;
          ext = lower (suffix input_path)
      in if ext \<in> IMAGE_EXTS then
           tag_outcome input_path
             (convert_file sys input_path (with_suffix input_path ''.webp'') ''image''
                (force a) (default_bitrate a) s)
         else if ext \<in> VIDEO_EXTS then
           tag_outcome input_path
             (convert_file sys input_path (with_suffix input_path ''.webm'') ''video''
                (force a) (default_bitrate a) s)
         else if ext \<in> AUDIO_EXTS then
           tag_outcome input_path
             (convert_file sys input_path (with_suffix input_path ''.webm'') ''audio''
                (force a) (default_bitrate a) s)
         else (Inr [], s))"

fun convert_filenames ::
  "'w system \<Rightarrow> args \<Rightarrow> string \<Rightarrow> string list \<Rightarrow> 'w st \<Rightarrow> (proc_error + (string \<times> outcome) list) \<times> 'w st" where
  \<comment> \<open>\<open>for filename in filenames\<close>; an exception ends the loop.\<close>
  "convert_filenames sys a dirpath [] s = (Inr [], s)"
| "convert_filenames sys a dirpath (filename # filenames) s =
     (case convert_entry sys a dirpath filename s of
        (Inl e, s') \<Rightarrow> (Inl e, s')
      | (Inr done1, s') \<Rightarrow>
          (case convert_filenames sys a dirpath filenames s' of
             (Inl e, s'') \<Rightarrow> (Inl e, s'')
           | (Inr done2, s'') \<Rightarrow> (Inr (done1 @ done2), s'')))"

fun convert_tree ::
  "'w system \<Rightarrow> args \<Rightarrow> (string \<times> string list) list \<Rightarrow> 'w st \<Rightarrow> (proc_error + (string \<times> outcome) list) \<times> 'w st" where
  \<comment> \<open>\<open>for dirpath, _, filenames in os.walk(root_dir)\<close>.\<close>
  "convert_tree sys a [] s = (Inr [], s)"
| "convert_tree sys a ((dirpath, filenames) # rest) s =
     (case convert_filenames sys a dirpath filenames s of
        (Inl e, s') \<Rightarrow> (Inl e, s')
      | (Inr done1, s') \<Rightarrow>
          (case convert_tree sys a rest s' of
             (Inl e, s'') \<Rightarrow> (Inl e, s'')
           | (Inr done2, s'') \<Rightarrow> (Inr (done1 @ done2), s'')))"

definition main :: "'w system \<Rightarrow> args \<Rightarrow> 'w \<Rightarrow> (abort + (string \<times> outcome) list) \<times> 'w st" where
  \<comment> \<open>lines 175 to 195, from the parsed arguments; the run starts with no event.
      \<open>os.walk\<close> is taken as the sequence of directories and file names it yields.\<close>
  "main sys a w =
     (case check_ffmpeg sys (w, []) of
        (Inl ab, s1) \<Rightarrow> (Inl ab, s1)
      | (Inr u, s1) \<Rightarrow>
          (case path_resolve sys (input_dir a) (fst s1) of
             None \<Rightarrow> (Inl (Uncaught OtherException), s1)
           | Some root_dir \<Rightarrow>
               (case path_is_dir sys root_dir (fst s1) of
                  None \<Rightarrow> (Inl (Uncaught OtherException), s1)
                | Some is_dir \<Rightarrow>
                    if \<not> is_dir then
                      (Inl (SysExit 1), print (Msg_not_a_directory root_dir) s1)
                    else
                      (case convert_tree sys a (os_walk sys root_dir (fst s1))
                              (fst s1, snd s1 @ [Walk root_dir]) of
                         (Inl e, s2) \<Rightarrow> (Inl (Uncaught e), s2)
                       | (Inr done, s2) \<Rightarrow> (Inr done, s2)))))"

definition exit_code :: "(abort + 'a) \<Rightarrow> nat" where
  \<comment> \<open>the exit status of the process.\<close>
  "exit_code r = (case r of Inr x \<Rightarrow> 0 | Inl (SysExit n) \<Rightarrow> n | Inl (Uncaught e) \<Rightarrow> 1)"

section \<open>Observations on a run\<close>

definition stem :: "string \<Rightarrow> string" where
  \<comment> \<open>the final component without its suffix (\<open>PurePath.stem\<close>).\<close>
  "stem name = take (length name - length (name_suffix name)) name"

definition commands :: "event list \<Rightarrow> string list list" where
  \<comment> \<open>the argument lists of the processes run, in order.\<close>
  "commands tr = concat (map (\<lambda>e. case e of Run cmd \<Rightarrow> [cmd] | Print m \<Rightarrow> [] | Walk d \<Rightarrow> []) tr)"

fun program :: "string list \<Rightarrow> string" where
  \<comment> \<open>the executable of an argument list.\<close>
  "program [] = []"
| "program (exe # arguments) = exe"

definition transcodes :: "event list \<Rightarrow> string list list" where
  \<comment> \<open>the invocations of the transcoding engine.\<close>
  "transcodes tr = filter (\<lambda>cmd. program cmd = ''ffmpeg'') (commands tr)"

definition version_queries :: "event list \<Rightarrow> string list list" where
  \<comment> \<open>the version queries of the dependency check.\<close>
  "version_queries tr =
     filter (\<lambda>cmd. cmd = [''ffmpeg'', ''-version''] \<or> cmd = [''ffprobe'', ''-version''])
       (commands tr)"

definition recognised :: "string \<Rightarrow> bool" where
  \<comment> \<open>the file names for which \<open>main\<close> calls \<open>convert_file\<close>.\<close>
  "recognised filename =
     (lower (name_suffix filename) \<in> IMAGE_EXTS \<union> VIDEO_EXTS \<union> AUDIO_EXTS)"

definition tasks_of :: "(string \<times> string list) list \<Rightarrow> string list" where
  \<comment> \<open>the files of a walk for which \<open>main\<close> calls \<open>convert_file\<close>, in the order of the walk.\<close>
  "tasks_of tree =
     concat (map (\<lambda>(dirpath, filenames).
        map (\<lambda>filename. str_path \<lparr>p_dir = dirpath, p_name = filename\<rparr>)
          (filter recognised filenames)) tree)"

definition walk_entries :: "(string \<times> string list) list \<Rightarrow> (string \<times> string) list" where
  \<comment> \<open>the files of a walk, each with its directory, in the order of the walk.\<close>
  "walk_entries tree =
     concat (map (\<lambda>(dirpath, filenames). map (\<lambda>filename. (dirpath, filename)) filenames) tree)"

fun process_every_file ::
  "'w system \<Rightarrow> args \<Rightarrow> (string \<times> string) list \<Rightarrow> 'w st \<Rightarrow> (string \<times> outcome) list \<times> 'w st" where
  \<comment> \<open>Following the specification (4.4, step 4, and section 7), not the loops of
      \<open>main\<close>: every file of the list is handled in its turn, from the state that the
      file before it left, whatever happened to that file; the outcomes are collected.\<close>
  "process_every_file sys a [] s = ([], s)"
| "process_every_file sys a ((dirpath, filename) # rest) s =
     (let r = convert_entry sys a dirpath filename s;
          finished = (case fst r of Inl e \<Rightarrow> [] | Inr outcomes \<Rightarrow> outcomes)
      in case process_every_file sys a rest (snd r) of
           (later, s') \<Rightarrow> (finished @ later, s'))"

definition task_notices :: "string \<Rightarrow> string \<Rightarrow> message list" where
  \<comment> \<open>the messages of which \<open>convert_file\<close> prints one for a file that it handles: the
      skip notice of line 82, the notice of lines 95, 134 and 159, or the warning of
      line 143.\<close>
  "task_notices dirpath filename =
     (let input_path = \<lparr>p_dir = dirpath, p_name = filename\<rparr>;
          src = str_path input_path;
          webp = str_path (with_suffix input_path ''.webp'');
          webm = str_path (with_suffix input_path ''.webm'')
      in [Msg_skip_exists webp, Msg_converting src webp,
          Msg_skip_exists webm, Msg_converting src webm,
          Msg_audio_no_stream src])"

definition handled :: "event list \<Rightarrow> string \<Rightarrow> string \<Rightarrow> bool" where
  \<comment> \<open>the run has printed a notice for the file.\<close>
  "handled tr dirpath filename =
     list_ex (\<lambda>m. Print m \<in> set tr) (task_notices dirpath filename)"

definition file_level_only :: "'w system \<Rightarrow> bool" where
  \<comment> \<open>the only failure of a run is a non-zero exit status of the transcoder: every run of
      the transcoder returns or raises \<open>CalledProcessError\<close>, and \<open>Path.exists\<close> never
      raises.\<close>
  "file_level_only sys =
     ((\<forall>cmd w. program cmd = ''ffmpeg'' \<longrightarrow>
         (\<exists>out. fst (run_proc sys cmd w) = Completed out)
         \<or> (\<exists>err. fst (run_proc sys cmd w) = Raised (CalledProcessError err)))
      \<and> (\<forall>p w. \<exists>output_exists. path_exists sys p w = Some output_exists))"

text \<open>
  A system without state, for concrete runs: every command is answered by a fixed
  function, the existing paths and the walk are fixed lists, every path resolves to
  itself and is a directory, and no query of the file system raises.
\<close>

definition fixed_system ::
  "(string list \<Rightarrow> run_outcome) \<Rightarrow> string list \<Rightarrow> (string \<times> string list) list \<Rightarrow> unit system" where
  "fixed_system respond existing tree =
     \<lparr>run_proc = (\<lambda>cmd w. (respond cmd, w)),
      path_exists = (\<lambda>p w. Some (p \<in> set existing)),
      path_resolve = (\<lambda>p w. Some p),
      path_is_dir = (\<lambda>p w. Some True),
      os_walk = (\<lambda>p w. tree)\<rparr>"

text \<open>
  Two answers of the probing tool for concrete runs: one audio stream at 128000 bits per
  second, and one audio stream whose bit rate is not known.
\<close>

definition media_probe :: "string list \<Rightarrow> run_outcome" where
  "media_probe cmd = (if ''stream=bit_rate'' \<in> set cmd then Completed ''128000'' else Completed ''1'')"

definition media_probe_unknown :: "string list \<Rightarrow> run_outcome" where
  "media_probe_unknown cmd = (if ''stream=bit_rate'' \<in> set cmd then Completed ''N/A'' else Completed ''1'')"

text \<open>
  An answer for concrete runs in which the transcoder exits with a non-zero status on one
  file and every other process completes with empty output.
\<close>

definition failing_for :: "string \<Rightarrow> string list \<Rightarrow> run_outcome" where
  "failing_for file cmd =
     (if program cmd = ''ffmpeg'' \<and> file \<in> set cmd
      then Raised (CalledProcessError ''Invalid data found when processing input'')
      else Completed [])"

text \<open>An answer for concrete runs in which one of the tools is not installed.\<close>

definition missing_tool :: "string \<Rightarrow> string list \<Rightarrow> run_outcome" where
  "missing_tool tool cmd = (if program cmd = tool then Raised FileNotFoundError else Completed [])"

section \<open>Basic facts\<close>

lemma subprocess_run_pair:
  "subprocess_run sys cmd (w, tr) =
     (fst (run_proc sys cmd w), (snd (run_proc sys cmd w), tr @ [Run cmd]))"
  by (simp add: subprocess_run_def split: prod.splits)

lemma print_pair: "print m (w, tr) = (w, tr @ [Print m])"
  by (simp add: print_def)

lemma isdecimal_isdigit: "isdecimal_char c \<Longrightarrow> isdigit_char c"
  by (simp add: isdigit_char_def)

lemma bitrate_of_stdout_eq:
  "bitrate_of_stdout out =
     (if strip out \<noteq> [] \<and> list_all isdecimal_char (strip out) \<and> 0 < digits_value (strip out)
      then Some (str_nat (max 8 (min 510 (digits_value (strip out) div 1000))) @ ''k'')
      else None)"
  by (auto simp: bitrate_of_stdout_def Let_def isdigit_def int_of_str_def list_all_iff
      isdecimal_isdigit max_def min_def)

lemma strip_examples:
  "strip (''5000'' @ [CHR 0x0A]) = ''5000''"
  "strip ''600000000'' = ''600000000''"
  "strip ''128000'' = ''128000''"
  "strip ''0'' = ''0''"
  "strip ''N/A'' = ''N/A''"
  "strip ''1'' = ''1''"
  "strip [CHR 0x0A] = []"
  "strip [] = []"
  by code_simp+

lemma digits_value_examples:
  "digits_value ''5000'' = 5000"
  "digits_value ''600000000'' = 600000000"
  "digits_value ''128000'' = 128000"
  "digits_value ''0'' = 0"
  by (simp_all add: digits_value_def digit_val_def)

lemma str_nat_examples:
  "str_nat 8 = ''8''"
  "str_nat 510 = ''510''"
  "str_nat 128 = ''128''"
  by code_simp+

section \<open>The bitrate probe\<close>

text \<open>
  Claim C1. \<open>get_audio_bitrate\<close> reads the standard output of the probing tool with the
  surrounding whitespace removed. When that is a non-empty string of decimal digits
  denoting \<open>b > 0\<close>, the result is the numeral of \<open>b div 1000\<close> clamped to \<open>[8, 510]\<close>,
  followed by \<open>k\<close>. When the value is 0, or the output is empty or not all decimal
  digits, or the query raises, the result is \<open>None\<close>.
\<close>

theorem get_audio_bitrate_result:
  "fst (get_audio_bitrate sys file_path (w, tr)) =
     (case fst (run_proc sys (audio_bitrate_cmd file_path) w) of
        Raised e \<Rightarrow> None
      | Completed out \<Rightarrow>
          if strip out \<noteq> [] \<and> list_all isdecimal_char (strip out) \<and> 0 < digits_value (strip out)
          then Some (str_nat (max 8 (min 510 (digits_value (strip out) div 1000))) @ ''k'')
          else None)"
  by (simp add: get_audio_bitrate_def subprocess_run_pair bitrate_of_stdout_eq
      split: run_outcome.splits)

theorem get_audio_bitrate_result_witness:
  "fst (get_audio_bitrate (fixed_system (\<lambda>cmd. Completed (''5000'' @ [CHR 0x0A])) [] [])
          ''/d/a.mp3'' ((), [])) = Some ''8k''
   \<and> fst (get_audio_bitrate (fixed_system (\<lambda>cmd. Completed ''600000000'') [] [])
          ''/d/a.mp3'' ((), [])) = Some ''510k''
   \<and> fst (get_audio_bitrate (fixed_system (\<lambda>cmd. Completed ''128000'') [] [])
          ''/d/a.mp3'' ((), [])) = Some ''128k''
   \<and> fst (get_audio_bitrate (fixed_system (\<lambda>cmd. Completed ''0'') [] [])
          ''/d/a.mp3'' ((), [])) = None
   \<and> fst (get_audio_bitrate (fixed_system (\<lambda>cmd. Completed ''N/A'') [] [])
          ''/d/a.mp3'' ((), [])) = None
   \<and> fst (get_audio_bitrate (fixed_system (\<lambda>cmd. Raised (CalledProcessError ''no such file'')) [] [])
          ''/d/a.mp3'' ((), [])) = None"
  by (simp add: get_audio_bitrate_result fixed_system_def strip_examples digits_value_examples
      str_nat_examples isdecimal_char_def del: append.simps)

section \<open>The audio stream probe\<close>



section \<open>Names and suffixes\<close>

lemma name_suffix_cases:
  "name_suffix name = [] \<or> (\<exists>i. 0 < i \<and> i < length name - 1 \<and> name_suffix name = drop i name)"
  by (auto simp: name_suffix_def split: option.splits)

lemma stem_suffix: "stem name @ name_suffix name = name"
  using name_suffix_cases [of name] by (auto simp: stem_def)

lemma with_suffix_stem:
  "with_suffix p new_suffix = p\<lparr>p_name := stem (p_name p) @ new_suffix\<rparr>"
  by (simp add: with_suffix_def stem_def suffix_def Let_def)

lemma char_dot_iff: "(c = CHR ''.'') = (of_char c = (46::nat))"
proof -
  have "(c = CHR ''.'') = (of_char c = (of_char CHR ''.'' :: nat))"
    by (simp only: of_char_eq_iff)
  then show ?thesis by simp
qed

lemma of_char_less: "(of_char c :: nat) < 256"
  by (cases c) simp

lemma lower_char_dot: "(lower_char c = CHR ''.'') = (c = CHR ''.'')"
proof -
  have "(of_char (lower_char c) = (46::nat)) = (of_char c = (46::nat))"
    using of_char_less [of c] by (auto simp: lower_char_def Let_def)
  then show ?thesis
    by (simp add: char_dot_iff)
qed

lemma rfind_dot_lower: "rfind_dot (lower name) = rfind_dot name"
proof -
  have "takeWhile (\<lambda>c. c \<noteq> CHR ''.'') (rev (map lower_char name)) =
        map lower_char (takeWhile (\<lambda>c. c \<noteq> CHR ''.'') (rev name))"
    by (simp add: rev_map takeWhile_map comp_def lower_char_dot)
  then show ?thesis
    by (simp add: rfind_dot_def lower_def Let_def)
qed

lemma name_suffix_lower: "name_suffix (lower name) = lower (name_suffix name)"
  by (simp add: name_suffix_def rfind_dot_lower split: option.splits)
     (simp add: lower_def drop_map)

section \<open>Classification of the files of the walk\<close>

lemma ext_disjoint:
  "IMAGE_EXTS \<inter> VIDEO_EXTS = {}" "IMAGE_EXTS \<inter> AUDIO_EXTS = {}" "VIDEO_EXTS \<inter> AUDIO_EXTS = {}"
  by (simp_all add: IMAGE_EXTS_def VIDEO_EXTS_def AUDIO_EXTS_def)

lemma convert_entry_image:
  "lower (name_suffix filename) \<in> IMAGE_EXTS \<Longrightarrow>
   convert_entry sys a dirpath filename s =
     tag_outcome \<lparr>p_dir = dirpath, p_name = filename\<rparr>
       (convert_file sys \<lparr>p_dir = dirpath, p_name = filename\<rparr>
          \<lparr>p_dir = dirpath, p_name = stem filename @ ''.webp''\<rparr> ''image''
          (force a) (default_bitrate a) s)"
  by (simp add: convert_entry_def Let_def suffix_def with_suffix_stem)

lemma convert_entry_video:
  "lower (name_suffix filename) \<in> VIDEO_EXTS \<Longrightarrow>
   convert_entry sys a dirpath filename s =
     tag_outcome \<lparr>p_dir = dirpath, p_name = filename\<rparr>
       (convert_file sys \<lparr>p_dir = dirpath, p_name = filename\<rparr>
          \<lparr>p_dir = dirpath, p_name = stem filename @ ''.webm''\<rparr> ''video''
          (force a) (default_bitrate a) s)"
proof -
  assume h: "lower (name_suffix filename) \<in> VIDEO_EXTS"
  with ext_disjoint have "lower (name_suffix filename) \<notin> IMAGE_EXTS" by blast
  with h show ?thesis
    by (simp add: convert_entry_def Let_def suffix_def with_suffix_stem)
qed

lemma convert_entry_audio:
  "lower (name_suffix filename) \<in> AUDIO_EXTS \<Longrightarrow>
   convert_entry sys a dirpath filename s =
     tag_outcome \<lparr>p_dir = dirpath, p_name = filename\<rparr>
       (convert_file sys \<lparr>p_dir = dirpath, p_name = filename\<rparr>
          \<lparr>p_dir = dirpath, p_name = stem filename @ ''.webm''\<rparr> ''audio''
          (force a) (default_bitrate a) s)"
proof -
  assume h: "lower (name_suffix filename) \<in> AUDIO_EXTS"
  with ext_disjoint have "lower (name_suffix filename) \<notin> IMAGE_EXTS"
    "lower (name_suffix filename) \<notin> VIDEO_EXTS" by blast+
  with h show ?thesis
    by (simp add: convert_entry_def Let_def suffix_def with_suffix_stem)
qed

lemma convert_entry_other:
  "lower (name_suffix filename) \<notin> IMAGE_EXTS \<union> VIDEO_EXTS \<union> AUDIO_EXTS \<Longrightarrow>
   convert_entry sys a dirpath filename s = (Inr [], s)"
  by (simp add: convert_entry_def Let_def suffix_def)


lemma name_suffix_case_insensitive:
  "lower other = lower filename \<Longrightarrow> lower (name_suffix other) = lower (name_suffix filename)"
  by (metis name_suffix_lower)

lemma name_examples:
  "lower (name_suffix ''photo.JPG'') = ''.jpg''"
  "stem ''photo.JPG'' = ''photo''"
  "lower (name_suffix ''clip.Mp4'') = ''.mp4''"
  "stem ''clip.Mp4'' = ''clip''"
  "lower (name_suffix ''song.FLAC'') = ''.flac''"
  "stem ''song.FLAC'' = ''song''"
  "lower (name_suffix ''notes.txt'') = ''.txt''"
  "lower ''PHOTO.jpg'' = lower ''photo.JPG''"
  "name_suffix ''PHOTO.jpg'' = ''.jpg''"
  "lower ''.jpg'' = ''.jpg''"
  by code_simp+

text \<open>
  Claim C2. The loop body of \<open>main\<close> classifies a file by its suffix in lower case:
  an image suffix makes an \<open>image\<close> task with destination suffix \<open>.webp\<close>, a video
  suffix a \<open>video\<close> task and an audio suffix an \<open>audio\<close> task, both with destination
  suffix \<open>.webm\<close>; any other suffix makes no task. The destination is in the directory
  of the source and its name is the stem of the source name followed by the new suffix.
  Two names that differ in letter case only have the same lower-case suffix.
\<close>

theorem convert_entry_classification:
  "(let input_path = \<lparr>p_dir = dirpath, p_name = filename\<rparr>;
        ext = lower (name_suffix filename);
        out = (\<lambda>new. \<lparr>p_dir = dirpath, p_name = stem filename @ new\<rparr>);
        task = (\<lambda>file_type new.
                  tag_outcome input_path
                    (convert_file sys input_path (out new) file_type
                       (force a) (default_bitrate a) s))
    in (ext \<in> {''.jpg'', ''.jpeg'', ''.png'', ''.gif'', ''.bmp'', ''.tiff'', ''.tif'',
                ''.webp'', ''.apng''}
          \<longrightarrow> convert_entry sys a dirpath filename s = task ''image'' ''.webp'')
     \<and> (ext \<in> {''.mp4'', ''.avi'', ''.mov'', ''.mkv'', ''.flv'', ''.wmv'', ''.m4v'',
                ''.mpg'', ''.mpeg''}
          \<longrightarrow> convert_entry sys a dirpath filename s = task ''video'' ''.webm'')
     \<and> (ext \<in> {''.mp3'', ''.flac'', ''.wav'', ''.aac'', ''.ogg'', ''.m4a'', ''.wma'',
                ''.opus''}
          \<longrightarrow> convert_entry sys a dirpath filename s = task ''audio'' ''.webm'')
     \<and> (ext \<notin> {''.jpg'', ''.jpeg'', ''.png'', ''.gif'', ''.bmp'', ''.tiff'', ''.tif'',
                ''.webp'', ''.apng''}
              \<union> {''.mp4'', ''.avi'', ''.mov'', ''.mkv'', ''.flv'', ''.wmv'', ''.m4v'',
                ''.mpg'', ''.mpeg''}
              \<union> {''.mp3'', ''.flac'', ''.wav'', ''.aac'', ''.ogg'', ''.m4a'', ''.wma'',
                ''.opus''}
          \<longrightarrow> convert_entry sys a dirpath filename s = (Inr [], s))
     \<and> filename = stem filename @ name_suffix filename
     \<and> (\<forall>other. lower other = lower filename \<longrightarrow> lower (name_suffix other) = ext))"
  unfolding Let_def IMAGE_EXTS_def [symmetric] VIDEO_EXTS_def [symmetric]
    AUDIO_EXTS_def [symmetric]
proof (intro conjI impI allI)
  show "filename = stem filename @ name_suffix filename"
    by (simp add: stem_suffix)
next
  fix other
  assume "lower other = lower filename"
  then show "lower (name_suffix other) = lower (name_suffix filename)"
    by (rule name_suffix_case_insensitive)
qed (erule convert_entry_image convert_entry_video convert_entry_audio convert_entry_other)+

theorem convert_entry_classification_witness:
  "convert_entry (fixed_system (\<lambda>cmd. Completed []) [] [])
      \<lparr>input_dir = ''/d'', force = False, default_bitrate = ''128k''\<rparr> ''/d'' ''photo.JPG'' ((), [])
    = tag_outcome \<lparr>p_dir = ''/d'', p_name = ''photo.JPG''\<rparr>
        (convert_file (fixed_system (\<lambda>cmd. Completed []) [] [])
           \<lparr>p_dir = ''/d'', p_name = ''photo.JPG''\<rparr> \<lparr>p_dir = ''/d'', p_name = ''photo.webp''\<rparr>
           ''image'' False ''128k'' ((), []))
   \<and> convert_entry (fixed_system (\<lambda>cmd. Completed []) [] [])
      \<lparr>input_dir = ''/d'', force = False, default_bitrate = ''128k''\<rparr> ''/d'' ''clip.Mp4'' ((), [])
    = tag_outcome \<lparr>p_dir = ''/d'', p_name = ''clip.Mp4''\<rparr>
        (convert_file (fixed_system (\<lambda>cmd. Completed []) [] [])
           \<lparr>p_dir = ''/d'', p_name = ''clip.Mp4''\<rparr> \<lparr>p_dir = ''/d'', p_name = ''clip.webm''\<rparr>
           ''video'' False ''128k'' ((), []))
   \<and> convert_entry (fixed_system (\<lambda>cmd. Completed []) [] [])
      \<lparr>input_dir = ''/d'', force = False, default_bitrate = ''128k''\<rparr> ''/d'' ''song.FLAC'' ((), [])
    = tag_outcome \<lparr>p_dir = ''/d'', p_name = ''song.FLAC''\<rparr>
        (convert_file (fixed_system (\<lambda>cmd. Completed []) [] [])
           \<lparr>p_dir = ''/d'', p_name = ''song.FLAC''\<rparr> \<lparr>p_dir = ''/d'', p_name = ''song.webm''\<rparr>
           ''audio'' False ''128k'' ((), []))
   \<and> convert_entry (fixed_system (\<lambda>cmd. Completed []) [] [])
      \<lparr>input_dir = ''/d'', force = False, default_bitrate = ''128k''\<rparr> ''/d'' ''notes.txt'' ((), [])
    = (Inr [], ((), []))
   \<and> lower (name_suffix ''PHOTO.jpg'') = lower (name_suffix ''photo.JPG'')"
proof -
  let ?S = "fixed_system (\<lambda>cmd. Completed []) [] []"
  let ?A = "\<lparr>input_dir = ''/d'', force = False, default_bitrate = ''128k''\<rparr>"
  note t = convert_entry_classification [where sys = ?S and a = ?A and dirpath = "''/d''" and s = "((), [])"]
  have 1: "convert_entry ?S ?A ''/d'' ''photo.JPG'' ((), [])
    = tag_outcome \<lparr>p_dir = ''/d'', p_name = ''photo.JPG''\<rparr>
        (convert_file ?S
           \<lparr>p_dir = ''/d'', p_name = ''photo.JPG''\<rparr> \<lparr>p_dir = ''/d'', p_name = ''photo.webp''\<rparr>
           ''image'' False ''128k'' ((), []))"
    using t [of "''photo.JPG''"] unfolding Let_def name_examples by simp
  have 2: "convert_entry ?S ?A ''/d'' ''clip.Mp4'' ((), [])
    = tag_outcome \<lparr>p_dir = ''/d'', p_name = ''clip.Mp4''\<rparr>
        (convert_file ?S
           \<lparr>p_dir = ''/d'', p_name = ''clip.Mp4''\<rparr> \<lparr>p_dir = ''/d'', p_name = ''clip.webm''\<rparr>
           ''video'' False ''128k'' ((), []))"
    using t [of "''clip.Mp4''"] unfolding Let_def name_examples by simp
  have 3: "convert_entry ?S ?A ''/d'' ''song.FLAC'' ((), [])
    = tag_outcome \<lparr>p_dir = ''/d'', p_name = ''song.FLAC''\<rparr>
        (convert_file ?S
           \<lparr>p_dir = ''/d'', p_name = ''song.FLAC''\<rparr> \<lparr>p_dir = ''/d'', p_name = ''song.webm''\<rparr>
           ''audio'' False ''128k'' ((), []))"
    using t [of "''song.FLAC''"] unfolding Let_def name_examples by simp
  have 4: "convert_entry ?S ?A ''/d'' ''notes.txt'' ((), []) = (Inr [], ((), []))"
    using t [of "''notes.txt''"] unfolding Let_def name_examples by simp
  have 5: "lower (name_suffix ''PHOTO.jpg'') = lower (name_suffix ''photo.JPG'')"
    using t [of "''photo.JPG''"] name_examples(8) unfolding Let_def by blast
  from 1 2 3 4 5 show ?thesis by blast
qed

section \<open>Sources named like destinations\<close>

lemma webp_examples:
  "lower ''.webp'' = ''.webp''"
  "lower ''.webm'' = ''.webm''"
  "name_suffix ''a.webp'' = ''.webp''"
  "lower (name_suffix ''a.WEBP'') = ''.webp''"
  "stem ''a.WEBP'' = ''a''"
  "lower (name_suffix ''a.webm'') = ''.webm''"
  by code_simp+

lemma convert_file_skip:
  "path_exists sys (str_path output_path) (fst s) = Some True \<Longrightarrow> \<not> forced \<Longrightarrow>
   convert_file sys input_path output_path file_type forced dflt s =
     (Inr Skipped_exists, print (Msg_skip_exists (str_path output_path)) s)"
  by (simp add: convert_file_def)

lemma convert_file_force:
  "forced \<Longrightarrow> path_exists sys (str_path output_path) (fst s) \<noteq> None \<Longrightarrow>
   convert_file sys input_path output_path file_type forced dflt s =
     (if file_type = ''image'' then convert_image sys input_path output_path s
      else if file_type = ''video'' then convert_video sys input_path output_path dflt s
      else if file_type = ''audio'' then convert_audio sys input_path output_path dflt s
      else (Inr Unknown_type, s))"
  by (auto simp add: convert_file_def)

text \<open>
  Claim C9, as amended. A file whose suffix is \<open>.webp\<close> in any letter case is an image
  task whose destination is the stem of its name followed by \<open>.webp\<close> in lower case.
  When the suffix is exactly \<open>.webp\<close>, the destination is the source path itself; such a
  file, when it exists, is skipped when the force flag is false, and with the force flag
  true the transcoder is run with the same path as input and output.
\<close>

theorem webp_source_destination:
  "(lower (name_suffix filename) = ''.webp'' \<longrightarrow>
      convert_entry sys a dirpath filename s =
        tag_outcome \<lparr>p_dir = dirpath, p_name = filename\<rparr>
          (convert_file sys \<lparr>p_dir = dirpath, p_name = filename\<rparr>
             \<lparr>p_dir = dirpath, p_name = stem filename @ ''.webp''\<rparr> ''image''
             (force a) (default_bitrate a) s))
   \<and> (name_suffix filename = ''.webp'' \<longrightarrow>
        with_suffix \<lparr>p_dir = dirpath, p_name = filename\<rparr> ''.webp''
          = \<lparr>p_dir = dirpath, p_name = filename\<rparr>
      \<and> (path_exists sys (str_path \<lparr>p_dir = dirpath, p_name = filename\<rparr>) (fst s) = Some True
           \<and> \<not> force a \<longrightarrow>
           convert_entry sys a dirpath filename s =
             (Inr [(str_path \<lparr>p_dir = dirpath, p_name = filename\<rparr>, Skipped_exists)],
              print (Msg_skip_exists (str_path \<lparr>p_dir = dirpath, p_name = filename\<rparr>)) s))
      \<and> (path_exists sys (str_path \<lparr>p_dir = dirpath, p_name = filename\<rparr>) (fst s) \<noteq> None
           \<and> force a \<longrightarrow>
           convert_entry sys a dirpath filename s =
             tag_outcome \<lparr>p_dir = dirpath, p_name = filename\<rparr>
               (run_ffmpeg sys
                  (image_cmd \<lparr>p_dir = dirpath, p_name = filename\<rparr> \<lparr>p_dir = dirpath, p_name = filename\<rparr>)
                  \<lparr>p_dir = dirpath, p_name = filename\<rparr>
                  (print (Msg_converting (str_path \<lparr>p_dir = dirpath, p_name = filename\<rparr>)
                            (str_path \<lparr>p_dir = dirpath, p_name = filename\<rparr>)) s))))"
proof (intro conjI impI)
  assume "lower (name_suffix filename) = ''.webp''"
  then have "lower (name_suffix filename) \<in> IMAGE_EXTS"
    by (simp add: IMAGE_EXTS_def)
  then show "convert_entry sys a dirpath filename s =
        tag_outcome \<lparr>p_dir = dirpath, p_name = filename\<rparr>
          (convert_file sys \<lparr>p_dir = dirpath, p_name = filename\<rparr>
             \<lparr>p_dir = dirpath, p_name = stem filename @ ''.webp''\<rparr> ''image''
             (force a) (default_bitrate a) s)"
    by (rule convert_entry_image)
next
  assume h: "name_suffix filename = ''.webp''"
  have st: "stem filename @ ''.webp'' = filename"
    using stem_suffix [of filename] h by simp
  show id: "with_suffix \<lparr>p_dir = dirpath, p_name = filename\<rparr> ''.webp''
          = \<lparr>p_dir = dirpath, p_name = filename\<rparr>"
    by (simp add: with_suffix_stem st)
  have "lower (name_suffix filename) \<in> IMAGE_EXTS"
    using h by (simp add: IMAGE_EXTS_def webp_examples)
  then have ce: "convert_entry sys a dirpath filename s =
        tag_outcome \<lparr>p_dir = dirpath, p_name = filename\<rparr>
          (convert_file sys \<lparr>p_dir = dirpath, p_name = filename\<rparr>
             \<lparr>p_dir = dirpath, p_name = filename\<rparr> ''image''
             (force a) (default_bitrate a) s)"
    using convert_entry_image [of filename sys a dirpath s] by (simp only: st)
  {
    assume "path_exists sys (str_path \<lparr>p_dir = dirpath, p_name = filename\<rparr>) (fst s) = Some True
           \<and> \<not> force a"
    then show "convert_entry sys a dirpath filename s =
             (Inr [(str_path \<lparr>p_dir = dirpath, p_name = filename\<rparr>, Skipped_exists)],
              print (Msg_skip_exists (str_path \<lparr>p_dir = dirpath, p_name = filename\<rparr>)) s)"
      by (simp add: ce convert_file_skip tag_outcome_def)
  }
  {
    assume "path_exists sys (str_path \<lparr>p_dir = dirpath, p_name = filename\<rparr>) (fst s) \<noteq> None
           \<and> force a"
    then show "convert_entry sys a dirpath filename s =
             tag_outcome \<lparr>p_dir = dirpath, p_name = filename\<rparr>
               (run_ffmpeg sys
                  (image_cmd \<lparr>p_dir = dirpath, p_name = filename\<rparr> \<lparr>p_dir = dirpath, p_name = filename\<rparr>)
                  \<lparr>p_dir = dirpath, p_name = filename\<rparr>
                  (print (Msg_converting (str_path \<lparr>p_dir = dirpath, p_name = filename\<rparr>)
                            (str_path \<lparr>p_dir = dirpath, p_name = filename\<rparr>)) s))"
      by (simp add: ce convert_file_force convert_image_def)
  }
qed

theorem webp_source_destination_witness:
  "name_suffix ''a.webp'' = ''.webp''
   \<and> with_suffix \<lparr>p_dir = ''/d'', p_name = ''a.webp''\<rparr> ''.webp'' = \<lparr>p_dir = ''/d'', p_name = ''a.webp''\<rparr>
   \<and> convert_entry (fixed_system (\<lambda>cmd. Completed []) [''/d/a.webp''] [])
        \<lparr>input_dir = ''/d'', force = False, default_bitrate = ''128k''\<rparr> ''/d'' ''a.webp'' ((), [])
      = (Inr [(''/d/a.webp'', Skipped_exists)], ((), [Print (Msg_skip_exists ''/d/a.webp'')]))
   \<and> convert_entry (fixed_system (\<lambda>cmd. Completed []) [''/d/a.webp''] [])
        \<lparr>input_dir = ''/d'', force = True, default_bitrate = ''128k''\<rparr> ''/d'' ''a.webp'' ((), [])
      = (Inr [(''/d/a.webp'', Converted)],
         ((), [Print (Msg_converting ''/d/a.webp'' ''/d/a.webp''),
               Run [''ffmpeg'', ''-i'', ''/d/a.webp'', ''-c:v'', ''libwebp'', ''-lossless'', ''1'',
                    ''-compression_level'', ''6'', ''-loop'', ''0'', ''-an'', ''-y'', ''/d/a.webp'']]))"
proof -
  let ?S = "fixed_system (\<lambda>cmd. Completed []) [''/d/a.webp''] []"
  let ?ip = "\<lparr>p_dir = ''/d'', p_name = ''a.webp''\<rparr>"
  have h: "name_suffix ''a.webp'' = ''.webp''"
    by (rule webp_examples)
  have sp: "str_path ?ip = ''/d/a.webp''"
    by (simp add: str_path_def)
  have ex: "path_exists ?S (str_path ?ip) (fst ((), [])) = Some True"
    by (simp add: fixed_system_def sp)
  note t0 = webp_source_destination
    [of "''a.webp''" ?S "\<lparr>input_dir = ''/d'', force = False, default_bitrate = ''128k''\<rparr>" "''/d''" "((), [])"]
  note t1 = webp_source_destination
    [of "''a.webp''" ?S "\<lparr>input_dir = ''/d'', force = True, default_bitrate = ''128k''\<rparr>" "''/d''" "((), [])"]
  have 1: "with_suffix ?ip ''.webp'' = ?ip"
    using t0 h by blast
  have 2: "convert_entry ?S \<lparr>input_dir = ''/d'', force = False, default_bitrate = ''128k''\<rparr> ''/d'' ''a.webp'' ((), [])
      = (Inr [(''/d/a.webp'', Skipped_exists)], ((), [Print (Msg_skip_exists ''/d/a.webp'')]))"
    using t0 h ex by (simp add: sp print_pair)
  have 3: "convert_entry ?S \<lparr>input_dir = ''/d'', force = True, default_bitrate = ''128k''\<rparr> ''/d'' ''a.webp'' ((), [])
      = (Inr [(''/d/a.webp'', Converted)],
         ((), [Print (Msg_converting ''/d/a.webp'' ''/d/a.webp''),
               Run [''ffmpeg'', ''-i'', ''/d/a.webp'', ''-c:v'', ''libwebp'', ''-lossless'', ''1'',
                    ''-compression_level'', ''6'', ''-loop'', ''0'', ''-an'', ''-y'', ''/d/a.webp'']]))"
    using t1 h
    by (simp add: sp print_pair run_ffmpeg_def subprocess_run_pair image_cmd_def tag_outcome_def
        fixed_system_def)
  from h 1 2 3 show ?thesis by blast
qed

text \<open>
  The claim as stated fails for a suffix that is not in lower case: the destination of
  \<open>a.WEBP\<close> is \<open>a.webp\<close>, a different path, and when only \<open>a.WEBP\<close> exists the file is
  converted, not skipped.
\<close>

theorem webp_upper_case_counterexample:
  "lower (name_suffix ''a.WEBP'') = ''.webp''
   \<and> with_suffix \<lparr>p_dir = ''/d'', p_name = ''a.WEBP''\<rparr> ''.webp'' = \<lparr>p_dir = ''/d'', p_name = ''a.webp''\<rparr>
   \<and> \<lparr>p_dir = ''/d'', p_name = ''a.webp''\<rparr> \<noteq> \<lparr>p_dir = ''/d'', p_name = ''a.WEBP''\<rparr>
   \<and> convert_entry (fixed_system (\<lambda>cmd. Completed []) [''/d/a.WEBP''] [])
        \<lparr>input_dir = ''/d'', force = False, default_bitrate = ''128k''\<rparr> ''/d'' ''a.WEBP'' ((), [])
      = (Inr [(''/d/a.WEBP'', Converted)],
         ((), [Print (Msg_converting ''/d/a.WEBP'' ''/d/a.webp''),
               Run [''ffmpeg'', ''-i'', ''/d/a.WEBP'', ''-c:v'', ''libwebp'', ''-lossless'', ''1'',
                    ''-compression_level'', ''6'', ''-loop'', ''0'', ''-an'', ''-y'', ''/d/a.webp'']]))"
proof -
  have 1: "with_suffix \<lparr>p_dir = ''/d'', p_name = ''a.WEBP''\<rparr> ''.webp'' = \<lparr>p_dir = ''/d'', p_name = ''a.webp''\<rparr>"
    by (simp add: with_suffix_stem webp_examples)
  have 2: "convert_entry (fixed_system (\<lambda>cmd. Completed []) [''/d/a.WEBP''] [])
        \<lparr>input_dir = ''/d'', force = False, default_bitrate = ''128k''\<rparr> ''/d'' ''a.WEBP'' ((), [])
      = (Inr [(''/d/a.WEBP'', Converted)],
         ((), [Print (Msg_converting ''/d/a.WEBP'' ''/d/a.webp''),
               Run [''ffmpeg'', ''-i'', ''/d/a.WEBP'', ''-c:v'', ''libwebp'', ''-lossless'', ''1'',
                    ''-compression_level'', ''6'', ''-loop'', ''0'', ''-an'', ''-y'', ''/d/a.webp'']]))"
    by code_simp
  show ?thesis
    using 1 2 by (simp add: webp_examples)
qed

text \<open>
  Claim C10, as amended. A file whose suffix is \<open>.webm\<close> in any letter case matches no
  extension set: the loop body does nothing for it, whatever the force flag, so it is
  never the source of a task.
\<close>

theorem webm_ignored:
  "lower (name_suffix filename) = ''.webm'' \<Longrightarrow>
   convert_entry sys a dirpath filename s = (Inr [], s) \<and> \<not> recognised filename"
proof -
  assume "lower (name_suffix filename) = ''.webm''"
  then have n: "lower (name_suffix filename) \<notin> IMAGE_EXTS \<union> VIDEO_EXTS \<union> AUDIO_EXTS"
    by (simp add: IMAGE_EXTS_def VIDEO_EXTS_def AUDIO_EXTS_def)
  then show ?thesis
    by (simp only: convert_entry_other recognised_def simp_thms)
qed

theorem webm_ignored_witness:
  "lower (name_suffix ''a.webm'') = ''.webm''
   \<and> convert_entry (fixed_system (\<lambda>cmd. Completed []) [''/d/a.webm''] [])
        \<lparr>input_dir = ''/d'', force = True, default_bitrate = ''128k''\<rparr> ''/d'' ''a.webm'' ((), [])
      = (Inr [], ((), []))
   \<and> \<not> recognised ''a.webm''"
  using webm_ignored [of "''a.webm''" "fixed_system (\<lambda>cmd. Completed []) [''/d/a.webm''] []"
      "\<lparr>input_dir = ''/d'', force = True, default_bitrate = ''128k''\<rparr>" "''/d''" "((), [])"]
    webp_examples(6)
  by blast

text \<open>
  The claim as stated fails where it says that such a file is never overwritten: with
  the force flag set, a run over a directory holding \<open>a.mp4\<close> and the earlier output
  \<open>a.webm\<close> runs the transcoder with \<open>-y\<close> and \<open>a.webm\<close> as its output.
\<close>

theorem webm_overwritten_counterexample:
  "lower (name_suffix ''a.webm'') = ''.webm''
   \<and> main (fixed_system (\<lambda>cmd. Completed []) [''/d/a.mp4'', ''/d/a.webm'']
             [(''/d'', [''a.mp4'', ''a.webm''])])
        \<lparr>input_dir = ''/d'', force = True, default_bitrate = ''128k''\<rparr> ()
      = (Inr [(''/d/a.mp4'', Converted)],
         ((), [Run [''ffmpeg'', ''-version''], Run [''ffprobe'', ''-version''], Walk ''/d'',
               Run [''ffprobe'', ''-v'', ''error'', ''-select_streams'', ''a'', ''-show_entries'',
                    ''stream=index'', ''-of'', ''default=noprint_wrappers=1:nokey=1'', ''/d/a.mp4''],
               Print Msg_video_no_audio,
               Print (Msg_converting ''/d/a.mp4'' ''/d/a.webm''),
               Run [''ffmpeg'', ''-i'', ''/d/a.mp4'', ''-c:v'', ''libvpx-vp9'', ''-lossless'', ''1'',
                    ''-b:v'', ''0'', ''-pix_fmt'', ''yuva420p'', ''-an'', ''-y'', ''/d/a.webm'']]))"
  by code_simp

section \<open>The commands of a task\<close>

lemma print_trace: "snd (print m s) = snd s @ [Print m]"
  by (cases s) (simp add: print_pair)

lemma has_audio_stream_trace:
  "snd (snd (has_audio_stream sys p s)) = snd s @ [Run (audio_streams_cmd p)]"
  by (cases s) (simp add: has_audio_stream_def subprocess_run_pair split: run_outcome.splits)

lemma get_audio_bitrate_trace:
  "snd (snd (get_audio_bitrate sys p s)) = snd s @ [Run (audio_bitrate_cmd p)]"
  by (cases s) (simp add: get_audio_bitrate_def subprocess_run_pair split: run_outcome.splits)

lemma commands_append [simp]: "commands (xs @ ys) = commands xs @ commands ys"
  by (simp add: commands_def)

lemma commands_Cons [simp]:
  "commands (Run cmd # tr) = cmd # commands tr"
  "commands (Print m # tr) = commands tr"
  "commands (Walk d # tr) = commands tr"
  "commands [] = []"
  by (simp_all add: commands_def)

lemma transcodes_append [simp]: "transcodes (xs @ ys) = transcodes xs @ transcodes ys"
  by (simp add: transcodes_def)

lemma transcodes_Cons [simp]:
  "transcodes (Run cmd # tr) = (if program cmd = ''ffmpeg'' then cmd # transcodes tr else transcodes tr)"
  "transcodes (Print m # tr) = transcodes tr"
  "transcodes (Walk d # tr) = transcodes tr"
  "transcodes [] = []"
  by (simp_all add: transcodes_def)

lemma probe_not_transcode [simp]:
  "program (audio_streams_cmd p) = ''ffprobe''" "program (audio_bitrate_cmd p) = ''ffprobe''"
  by (simp_all add: audio_streams_cmd_def audio_bitrate_cmd_def)

lemma cmd_is_transcode [simp]:
  "program (image_cmd ip op) = ''ffmpeg''"
  "program (video_audio_cmd ip op b) = ''ffmpeg''"
  "program (video_only_cmd ip op) = ''ffmpeg''"
  "program (audio_cmd ip op b) = ''ffmpeg''"
  by (simp_all add: image_cmd_def video_audio_cmd_def video_only_cmd_def audio_cmd_def)

lemma run_ffmpeg_transcodes:
  "program cmd = ''ffmpeg'' \<Longrightarrow>
   transcodes (snd (snd (run_ffmpeg sys cmd ip s))) = transcodes (snd s) @ [cmd]"
  by (cases s)
     (simp add: run_ffmpeg_def subprocess_run_pair print_pair
       split: run_outcome.splits proc_error.splits)

lemma convert_image_transcodes:
  "transcodes (snd (snd (convert_image sys ip op s))) = transcodes (snd s) @ [image_cmd ip op]"
  by (simp add: convert_image_def run_ffmpeg_transcodes print_trace)

lemma convert_video_transcodes:
  "transcodes (snd (snd (convert_video sys ip op dflt s))) =
     transcodes (snd s) @
       [if fst (has_audio_stream sys (str_path ip) s)
        then video_audio_cmd ip op
               (case fst (get_audio_bitrate sys (str_path ip)
                            (snd (has_audio_stream sys (str_path ip) s))) of
                  None \<Rightarrow> dflt | Some b \<Rightarrow> b)
        else video_only_cmd ip op]"
proof -
  obtain b s1 where h: "has_audio_stream sys (str_path ip) s = (b, s1)"
    by (cases "has_audio_stream sys (str_path ip) s")
  obtain pr s2 where g: "get_audio_bitrate sys (str_path ip) s1 = (pr, s2)"
    by (cases "get_audio_bitrate sys (str_path ip) s1")
  have t1: "snd s1 = snd s @ [Run (audio_streams_cmd (str_path ip))]"
    using has_audio_stream_trace [of sys "str_path ip" s] h by simp
  have t2: "snd s2 = snd s1 @ [Run (audio_bitrate_cmd (str_path ip))]"
    using get_audio_bitrate_trace [of sys "str_path ip" s1] g by simp
  show ?thesis
    by (cases b; cases pr)
       (simp_all add: convert_video_def h g t1 t2 run_ffmpeg_transcodes print_trace)
qed

lemma convert_audio_transcodes:
  "transcodes (snd (snd (convert_audio sys ip op dflt s))) =
     transcodes (snd s) @
       (if fst (has_audio_stream sys (str_path ip) s)
        then [audio_cmd ip op
               (case fst (get_audio_bitrate sys (str_path ip)
                            (snd (has_audio_stream sys (str_path ip) s))) of
                  None \<Rightarrow> dflt | Some b \<Rightarrow> b)]
        else [])"
proof -
  obtain b s1 where h: "has_audio_stream sys (str_path ip) s = (b, s1)"
    by (cases "has_audio_stream sys (str_path ip) s")
  obtain pr s2 where g: "get_audio_bitrate sys (str_path ip) s1 = (pr, s2)"
    by (cases "get_audio_bitrate sys (str_path ip) s1")
  have t1: "snd s1 = snd s @ [Run (audio_streams_cmd (str_path ip))]"
    using has_audio_stream_trace [of sys "str_path ip" s] h by simp
  have t2: "snd s2 = snd s1 @ [Run (audio_bitrate_cmd (str_path ip))]"
    using get_audio_bitrate_trace [of sys "str_path ip" s1] g by simp
  show ?thesis
    by (cases b; cases pr)
       (simp_all add: convert_audio_def h g t1 t2 run_ffmpeg_transcodes print_trace)
qed

lemma convert_audio_no_stream:
  "\<not> fst (has_audio_stream sys (str_path ip) s) \<Longrightarrow>
   convert_audio sys ip op dflt s =
     (Inr Skipped_no_audio,
      print (Msg_audio_no_stream (str_path ip)) (snd (has_audio_stream sys (str_path ip) s)))"
  by (cases "has_audio_stream sys (str_path ip) s") (simp add: convert_audio_def)

lemma convert_file_not_skipped:
  "path_exists sys (str_path output_path) (fst s) = Some output_exists \<Longrightarrow>
   \<not> (output_exists \<and> \<not> forced) \<Longrightarrow>
   convert_file sys input_path output_path file_type forced dflt s =
     (if file_type = ''image'' then convert_image sys input_path output_path s
      else if file_type = ''video'' then convert_video sys input_path output_path dflt s
      else if file_type = ''audio'' then convert_audio sys input_path output_path dflt s
      else (Inr Unknown_type, s))"
  by (auto simp add: convert_file_def)

lemma paths_ex:
  "str_path \<lparr>p_dir = ''/d'', p_name = ''a.mp4''\<rparr> = ''/d/a.mp4''"
  "str_path \<lparr>p_dir = ''/d'', p_name = ''a.webm''\<rparr> = ''/d/a.webm''"
  "str_path \<lparr>p_dir = ''/d'', p_name = ''a.mp3''\<rparr> = ''/d/a.mp3''"
  "str_path \<lparr>p_dir = ''/d'', p_name = ''a.png''\<rparr> = ''/d/a.png''"
  "str_path \<lparr>p_dir = ''/d'', p_name = ''a.webp''\<rparr> = ''/d/a.webp''"
  by (simp_all add: str_path_def)

lemma has_audio_stream_fixed:
  "has_audio_stream (fixed_system respond existing tree) p (w, tr) =
     ((case respond (audio_streams_cmd p) of Completed out \<Rightarrow> strip out \<noteq> [] | Raised e \<Rightarrow> False),
      (w, tr @ [Run (audio_streams_cmd p)]))"
  by (simp add: has_audio_stream_def subprocess_run_pair fixed_system_def split: run_outcome.splits)

lemma get_audio_bitrate_fixed:
  "get_audio_bitrate (fixed_system respond existing tree) p (w, tr) =
     ((case respond (audio_bitrate_cmd p) of Completed out \<Rightarrow> bitrate_of_stdout out | Raised e \<Rightarrow> None),
      (w, tr @ [Run (audio_bitrate_cmd p)]))"
  by (simp add: get_audio_bitrate_def subprocess_run_pair fixed_system_def split: run_outcome.splits)

lemma bitrate_examples:
  "bitrate_of_stdout ''128000'' = Some ''128k''"
  "bitrate_of_stdout ''N/A'' = None"
  by (simp_all add: bitrate_of_stdout_eq strip_examples digits_value_examples str_nat_examples
      isdecimal_char_def)

lemma media_probe_ex:
  "media_probe (audio_streams_cmd ''/d/a.mp4'') = Completed ''1''"
  "media_probe (audio_bitrate_cmd ''/d/a.mp4'') = Completed ''128000''"
  "media_probe_unknown (audio_streams_cmd ''/d/a.mp4'') = Completed ''1''"
  "media_probe_unknown (audio_bitrate_cmd ''/d/a.mp4'') = Completed ''N/A''"
  "media_probe (audio_streams_cmd ''/d/a.mp3'') = Completed ''1''"
  "media_probe (audio_bitrate_cmd ''/d/a.mp3'') = Completed ''128000''"
  "media_probe_unknown (audio_streams_cmd ''/d/a.mp3'') = Completed ''1''"
  "media_probe_unknown (audio_bitrate_cmd ''/d/a.mp3'') = Completed ''N/A''"
  by (simp_all add: media_probe_def media_probe_unknown_def audio_streams_cmd_def audio_bitrate_cmd_def)

text \<open>
  Claim C3. A video task that is not skipped (the destination does not exist, or the
  force flag is set) runs the transcoder once. When
  \<open>has_audio_stream\<close> reports true the command re-encodes the audio with \<open>libopus\<close> at the
  probed bit rate, or at the default bit rate of the run when the probe returns \<open>None\<close>;
  when it reports false the command drops the audio (\<open>-an\<close>) and encodes the video only.
\<close>

theorem video_task_command:
  "path_exists sys (str_path output_path) (fst s) = Some output_exists \<Longrightarrow>
   \<not> (output_exists \<and> \<not> forced) \<Longrightarrow>
   (let src = str_path input_path;
        dst = str_path output_path;
        has_audio = fst (has_audio_stream sys src s);
        probed = fst (get_audio_bitrate sys src (snd (has_audio_stream sys src s)));
        audio_bitrate = (case probed of None \<Rightarrow> dflt | Some b \<Rightarrow> b);
        tr' = snd (snd (convert_file sys input_path output_path ''video'' forced dflt s))
    in (has_audio \<longrightarrow>
          transcodes tr' = transcodes (snd s) @
            [[''ffmpeg'', ''-i'', src, ''-c:v'', ''libvpx-vp9'', ''-lossless'', ''1'', ''-b:v'', ''0'',
              ''-pix_fmt'', ''yuva420p'', ''-c:a'', ''libopus'', ''-b:a'', audio_bitrate,
              ''-y'', dst]])
     \<and> (\<not> has_audio \<longrightarrow>
          transcodes tr' = transcodes (snd s) @
            [[''ffmpeg'', ''-i'', src, ''-c:v'', ''libvpx-vp9'', ''-lossless'', ''1'', ''-b:v'', ''0'',
              ''-pix_fmt'', ''yuva420p'', ''-an'', ''-y'', dst]]))"
  by (simp add: convert_file_not_skipped convert_video_transcodes Let_def
      video_audio_cmd_def video_only_cmd_def)

theorem video_task_command_witness:
  "transcodes (snd (snd (convert_file (fixed_system media_probe [] [])
      \<lparr>p_dir = ''/d'', p_name = ''a.mp4''\<rparr> \<lparr>p_dir = ''/d'', p_name = ''a.webm''\<rparr>
      ''video'' False ''96k'' ((), []))))
     = [[''ffmpeg'', ''-i'', ''/d/a.mp4'', ''-c:v'', ''libvpx-vp9'', ''-lossless'', ''1'', ''-b:v'', ''0'',
         ''-pix_fmt'', ''yuva420p'', ''-c:a'', ''libopus'', ''-b:a'', ''128k'', ''-y'', ''/d/a.webm'']]
   \<and> transcodes (snd (snd (convert_file (fixed_system media_probe_unknown [] [])
      \<lparr>p_dir = ''/d'', p_name = ''a.mp4''\<rparr> \<lparr>p_dir = ''/d'', p_name = ''a.webm''\<rparr>
      ''video'' False ''96k'' ((), []))))
     = [[''ffmpeg'', ''-i'', ''/d/a.mp4'', ''-c:v'', ''libvpx-vp9'', ''-lossless'', ''1'', ''-b:v'', ''0'',
         ''-pix_fmt'', ''yuva420p'', ''-c:a'', ''libopus'', ''-b:a'', ''96k'', ''-y'', ''/d/a.webm'']]
   \<and> transcodes (snd (snd (convert_file (fixed_system (\<lambda>cmd. Completed []) [] [])
      \<lparr>p_dir = ''/d'', p_name = ''a.mp4''\<rparr> \<lparr>p_dir = ''/d'', p_name = ''a.webm''\<rparr>
      ''video'' False ''96k'' ((), []))))
     = [[''ffmpeg'', ''-i'', ''/d/a.mp4'', ''-c:v'', ''libvpx-vp9'', ''-lossless'', ''1'', ''-b:v'', ''0'',
         ''-pix_fmt'', ''yuva420p'', ''-an'', ''-y'', ''/d/a.webm'']]"
proof -
  let ?ip = "\<lparr>p_dir = ''/d'', p_name = ''a.mp4''\<rparr>"
  let ?op = "\<lparr>p_dir = ''/d'', p_name = ''a.webm''\<rparr>"
  have n: "path_exists (fixed_system respond [] []) (str_path ?op) (fst ((), [])) = Some False"
    "\<not> (False \<and> \<not> False)"
    for respond
    by (simp_all add: fixed_system_def)
  show ?thesis
    using n video_task_command [where sys = "fixed_system (media_probe) [] []" and input_path = ?ip and output_path = ?op
        and forced = False and dflt = "''96k''" and s = "((), [])" and output_exists = False]
      video_task_command [where sys = "fixed_system (media_probe_unknown) [] []" and input_path = ?ip and output_path = ?op
        and forced = False and dflt = "''96k''" and s = "((), [])" and output_exists = False]
      video_task_command [where sys = "fixed_system (\<lambda>cmd. Completed []) [] []" and input_path = ?ip and output_path = ?op
        and forced = False and dflt = "''96k''" and s = "((), [])" and output_exists = False]
    by (simp add: Let_def paths_ex has_audio_stream_fixed get_audio_bitrate_fixed media_probe_ex
        bitrate_examples strip_examples)
qed

text \<open>
  Claim C5. An audio task that is not skipped (the destination does not exist, or the
  force flag is set) and whose source has no audio stream prints
  a warning, runs no transcoder and returns without an exception; otherwise it runs the
  transcoder once, re-encoding the audio only, at the probed bit rate or at the default
  bit rate when the probe returns \<open>None\<close>.
\<close>

theorem audio_task_command:
  "path_exists sys (str_path output_path) (fst s) = Some output_exists \<Longrightarrow>
   \<not> (output_exists \<and> \<not> forced) \<Longrightarrow>
   (let src = str_path input_path;
        dst = str_path output_path;
        has_audio = fst (has_audio_stream sys src s);
        probed = fst (get_audio_bitrate sys src (snd (has_audio_stream sys src s)));
        audio_bitrate = (case probed of None \<Rightarrow> dflt | Some b \<Rightarrow> b);
        result = convert_file sys input_path output_path ''audio'' forced dflt s
    in (\<not> has_audio \<longrightarrow>
          fst result = Inr Skipped_no_audio
          \<and> snd (snd result) = snd s @ [Run (audio_streams_cmd src), Print (Msg_audio_no_stream src)]
          \<and> transcodes (snd (snd result)) = transcodes (snd s))
     \<and> (has_audio \<longrightarrow>
          transcodes (snd (snd result)) = transcodes (snd s) @
            [[''ffmpeg'', ''-i'', src, ''-c:a'', ''libopus'', ''-b:a'', audio_bitrate, ''-y'', dst]]))"
  by (simp add: convert_file_not_skipped convert_audio_transcodes Let_def audio_cmd_def
      convert_audio_no_stream print_trace has_audio_stream_trace)

theorem audio_task_command_witness:
  "transcodes (snd (snd (convert_file (fixed_system media_probe [] [])
      \<lparr>p_dir = ''/d'', p_name = ''a.mp3''\<rparr> \<lparr>p_dir = ''/d'', p_name = ''a.webm''\<rparr>
      ''audio'' False ''96k'' ((), []))))
     = [[''ffmpeg'', ''-i'', ''/d/a.mp3'', ''-c:a'', ''libopus'', ''-b:a'', ''128k'', ''-y'', ''/d/a.webm'']]
   \<and> transcodes (snd (snd (convert_file (fixed_system media_probe_unknown [] [])
      \<lparr>p_dir = ''/d'', p_name = ''a.mp3''\<rparr> \<lparr>p_dir = ''/d'', p_name = ''a.webm''\<rparr>
      ''audio'' False ''96k'' ((), []))))
     = [[''ffmpeg'', ''-i'', ''/d/a.mp3'', ''-c:a'', ''libopus'', ''-b:a'', ''96k'', ''-y'', ''/d/a.webm'']]
   \<and> fst (convert_file (fixed_system (\<lambda>cmd. Completed []) [] [])
      \<lparr>p_dir = ''/d'', p_name = ''a.mp3''\<rparr> \<lparr>p_dir = ''/d'', p_name = ''a.webm''\<rparr>
      ''audio'' False ''96k'' ((), [])) = Inr Skipped_no_audio
   \<and> snd (snd (convert_file (fixed_system (\<lambda>cmd. Completed []) [] [])
      \<lparr>p_dir = ''/d'', p_name = ''a.mp3''\<rparr> \<lparr>p_dir = ''/d'', p_name = ''a.webm''\<rparr>
      ''audio'' False ''96k'' ((), [])))
     = [Run (audio_streams_cmd ''/d/a.mp3''), Print (Msg_audio_no_stream ''/d/a.mp3'')]"
proof -
  let ?ip = "\<lparr>p_dir = ''/d'', p_name = ''a.mp3''\<rparr>"
  let ?op = "\<lparr>p_dir = ''/d'', p_name = ''a.webm''\<rparr>"
  have n: "path_exists (fixed_system respond [] []) (str_path ?op) (fst ((), [])) = Some False"
    "\<not> (False \<and> \<not> False)"
    for respond
    by (simp_all add: fixed_system_def)
  show ?thesis
    using n audio_task_command [where sys = "fixed_system (media_probe) [] []" and input_path = ?ip and output_path = ?op
        and forced = False and dflt = "''96k''" and s = "((), [])" and output_exists = False]
      audio_task_command [where sys = "fixed_system (media_probe_unknown) [] []" and input_path = ?ip and output_path = ?op
        and forced = False and dflt = "''96k''" and s = "((), [])" and output_exists = False]
      audio_task_command [where sys = "fixed_system (\<lambda>cmd. Completed []) [] []" and input_path = ?ip and output_path = ?op
        and forced = False and dflt = "''96k''" and s = "((), [])" and output_exists = False]
    by (simp add: Let_def paths_ex has_audio_stream_fixed get_audio_bitrate_fixed media_probe_ex
        bitrate_examples strip_examples)
qed

section \<open>Existing destinations\<close>

lemma convert_file_transcodes_forced:
  "forced \<Longrightarrow> path_exists sys (str_path op) (fst s) \<noteq> None \<Longrightarrow>
   transcodes (snd (snd (convert_file sys ip op file_type forced dflt s))) =
     transcodes (snd s) @
       (if file_type = ''image'' then [image_cmd ip op]
        else if file_type = ''video'' then
          [if fst (has_audio_stream sys (str_path ip) s)
           then video_audio_cmd ip op
                  (case fst (get_audio_bitrate sys (str_path ip)
                               (snd (has_audio_stream sys (str_path ip) s))) of
                     None \<Rightarrow> dflt | Some b \<Rightarrow> b)
           else video_only_cmd ip op]
        else if file_type = ''audio'' then
          (if fst (has_audio_stream sys (str_path ip) s)
           then [audio_cmd ip op
                  (case fst (get_audio_bitrate sys (str_path ip)
                               (snd (has_audio_stream sys (str_path ip) s))) of
                     None \<Rightarrow> dflt | Some b \<Rightarrow> b)]
           else [])
        else [])"
  by (simp add: convert_file_force convert_image_transcodes convert_video_transcodes
      convert_audio_transcodes)

lemma cmd_output:
  "drop (length (video_audio_cmd ip op b) - 2) (video_audio_cmd ip op b) = [''-y'', str_path op]"
  "drop (length (video_only_cmd ip op) - 2) (video_only_cmd ip op) = [''-y'', str_path op]"
  "drop (length (audio_cmd ip op b) - 2) (audio_cmd ip op b) = [''-y'', str_path op]"
  by (simp_all add: video_audio_cmd_def video_only_cmd_def audio_cmd_def)

text \<open>
  Claim C4, as amended. When the destination exists and the force flag is false,
  \<open>convert_file\<close> prints the skip notice and returns: no process is run. With the force
  flag true the task is not skipped, whatever the existence query returned: an image
  task and a video task run the transcoder once, and so does an audio task whose source
  has an audio stream, each with \<open>-y\<close> and the destination as the last arguments; an
  audio task whose source has no audio stream runs no transcoder.
\<close>

theorem existing_destination:
  "(path_exists sys (str_path output_path) (fst s) = Some True \<and> \<not> forced \<longrightarrow>
      convert_file sys input_path output_path file_type forced dflt s =
        (Inr Skipped_exists, (fst s, snd s @ [Print (Msg_skip_exists (str_path output_path))])))
   \<and> (path_exists sys (str_path output_path) (fst s) \<noteq> None \<and> forced \<longrightarrow>
        (let src = str_path input_path;
             dst = str_path output_path;
             has_audio = fst (has_audio_stream sys src s);
             tr' = (\<lambda>file_type.
                      snd (snd (convert_file sys input_path output_path file_type forced dflt s)))
         in transcodes (tr' ''image'') = transcodes (snd s) @
              [[''ffmpeg'', ''-i'', src, ''-c:v'', ''libwebp'', ''-lossless'', ''1'',
                ''-compression_level'', ''6'', ''-loop'', ''0'', ''-an'', ''-y'', dst]]
          \<and> (\<exists>cmd. transcodes (tr' ''video'') = transcodes (snd s) @ [cmd]
                \<and> drop (length cmd - 2) cmd = [''-y'', dst])
          \<and> (has_audio \<longrightarrow>
                (\<exists>cmd. transcodes (tr' ''audio'') = transcodes (snd s) @ [cmd]
                   \<and> drop (length cmd - 2) cmd = [''-y'', dst]))
          \<and> (\<not> has_audio \<longrightarrow> transcodes (tr' ''audio'') = transcodes (snd s))))"
proof (intro conjI impI)
  assume "path_exists sys (str_path output_path) (fst s) = Some True \<and> \<not> forced"
  then show "convert_file sys input_path output_path file_type forced dflt s =
        (Inr Skipped_exists, (fst s, snd s @ [Print (Msg_skip_exists (str_path output_path))]))"
    by (cases s) (simp add: convert_file_skip print_pair)
next
  assume "path_exists sys (str_path output_path) (fst s) \<noteq> None \<and> forced"
  then have f: forced "path_exists sys (str_path output_path) (fst s) \<noteq> None"
    by simp_all
  show "(let src = str_path input_path;
             dst = str_path output_path;
             has_audio = fst (has_audio_stream sys src s);
             tr' = (\<lambda>file_type.
                      snd (snd (convert_file sys input_path output_path file_type forced dflt s)))
         in transcodes (tr' ''image'') = transcodes (snd s) @
              [[''ffmpeg'', ''-i'', src, ''-c:v'', ''libwebp'', ''-lossless'', ''1'',
                ''-compression_level'', ''6'', ''-loop'', ''0'', ''-an'', ''-y'', dst]]
          \<and> (\<exists>cmd. transcodes (tr' ''video'') = transcodes (snd s) @ [cmd]
                \<and> drop (length cmd - 2) cmd = [''-y'', dst])
          \<and> (has_audio \<longrightarrow>
                (\<exists>cmd. transcodes (tr' ''audio'') = transcodes (snd s) @ [cmd]
                   \<and> drop (length cmd - 2) cmd = [''-y'', dst]))
          \<and> (\<not> has_audio \<longrightarrow> transcodes (tr' ''audio'') = transcodes (snd s)))"
    unfolding Let_def
  proof (intro conjI impI)
    show "transcodes (snd (snd (convert_file sys input_path output_path ''image'' forced dflt s))) =
      transcodes (snd s) @
        [[''ffmpeg'', ''-i'', str_path input_path, ''-c:v'', ''libwebp'', ''-lossless'', ''1'',
          ''-compression_level'', ''6'', ''-loop'', ''0'', ''-an'', ''-y'', str_path output_path]]"
      using f by (simp add: convert_file_transcodes_forced image_cmd_def)
  next
    show "\<exists>cmd. transcodes (snd (snd (convert_file sys input_path output_path ''video'' forced dflt s))) =
            transcodes (snd s) @ [cmd]
          \<and> drop (length cmd - 2) cmd = [''-y'', str_path output_path]"
      using f cmd_output by (simp add: convert_file_transcodes_forced)
  next
    assume "fst (has_audio_stream sys (str_path input_path) s)"
    then show "\<exists>cmd. transcodes (snd (snd (convert_file sys input_path output_path ''audio'' forced dflt s))) =
            transcodes (snd s) @ [cmd]
          \<and> drop (length cmd - 2) cmd = [''-y'', str_path output_path]"
      using f cmd_output by (simp add: convert_file_transcodes_forced)
  next
    assume "\<not> fst (has_audio_stream sys (str_path input_path) s)"
    then show "transcodes (snd (snd (convert_file sys input_path output_path ''audio'' forced dflt s))) =
            transcodes (snd s)"
      using f by (simp add: convert_file_transcodes_forced)
  qed
qed

theorem existing_destination_witness:
  "convert_file (fixed_system (\<lambda>cmd. Completed []) [''/d/a.webp''] [])
     \<lparr>p_dir = ''/d'', p_name = ''a.png''\<rparr> \<lparr>p_dir = ''/d'', p_name = ''a.webp''\<rparr>
     ''image'' False ''128k'' ((), [])
     = (Inr Skipped_exists, ((), [Print (Msg_skip_exists ''/d/a.webp'')]))
   \<and> transcodes (snd (snd (convert_file (fixed_system (\<lambda>cmd. Completed []) [''/d/a.webp''] [])
     \<lparr>p_dir = ''/d'', p_name = ''a.png''\<rparr> \<lparr>p_dir = ''/d'', p_name = ''a.webp''\<rparr>
     ''image'' True ''128k'' ((), []))))
     = [[''ffmpeg'', ''-i'', ''/d/a.png'', ''-c:v'', ''libwebp'', ''-lossless'', ''1'',
         ''-compression_level'', ''6'', ''-loop'', ''0'', ''-an'', ''-y'', ''/d/a.webp'']]"
proof -
  let ?S = "fixed_system (\<lambda>cmd. Completed []) [''/d/a.webp''] []"
  let ?ip = "\<lparr>p_dir = ''/d'', p_name = ''a.png''\<rparr>"
  let ?op = "\<lparr>p_dir = ''/d'', p_name = ''a.webp''\<rparr>"
  have ex: "path_exists ?S (str_path ?op) (fst ((), [])) = Some True"
    by (simp add: fixed_system_def paths_ex)
  show ?thesis
    using ex
      existing_destination [where sys = ?S and input_path = ?ip and output_path = ?op
        and forced = False and dflt = "''128k''" and s = "((), [])" and file_type = "''image''"]
      existing_destination [where sys = ?S and input_path = ?ip and output_path = ?op
        and forced = True and dflt = "''128k''" and s = "((), [])" and file_type = "''image''"]
    by (simp add: Let_def paths_ex)
qed

text \<open>
  The claim as stated fails where it says that the transcoder is run whenever the force
  flag is true: for an audio task whose source has no audio stream, only the probe is
  run and the existing destination is left alone.
\<close>

theorem forced_audio_without_stream_counterexample:
  "path_exists (fixed_system (\<lambda>cmd. Completed []) [''/d/a.mp3'', ''/d/a.webm''] []) ''/d/a.webm'' ()
     = Some True
   \<and> convert_file (fixed_system (\<lambda>cmd. Completed []) [''/d/a.mp3'', ''/d/a.webm''] [])
       \<lparr>p_dir = ''/d'', p_name = ''a.mp3''\<rparr> \<lparr>p_dir = ''/d'', p_name = ''a.webm''\<rparr>
       ''audio'' True ''128k'' ((), [])
     = (Inr Skipped_no_audio,
        ((), [Run [''ffprobe'', ''-v'', ''error'', ''-select_streams'', ''a'', ''-show_entries'',
                   ''stream=index'', ''-of'', ''default=noprint_wrappers=1:nokey=1'', ''/d/a.mp3''],
              Print (Msg_audio_no_stream ''/d/a.mp3'')]))
   \<and> transcodes (snd (snd (convert_file (fixed_system (\<lambda>cmd. Completed []) [''/d/a.mp3'', ''/d/a.webm''] [])
       \<lparr>p_dir = ''/d'', p_name = ''a.mp3''\<rparr> \<lparr>p_dir = ''/d'', p_name = ''a.webm''\<rparr>
       ''audio'' True ''128k'' ((), [])))) = []"
  by code_simp

section \<open>Failures of single files\<close>

lemma run_ffmpeg_no_raise:
  "file_level_only sys \<Longrightarrow> program cmd = ''ffmpeg'' \<Longrightarrow>
   \<exists>oc. fst (run_ffmpeg sys cmd ip s) = Inr oc"
proof -
  assume h: "file_level_only sys" and p: "program cmd = ''ffmpeg''"
  obtain w tr where s: "s = (w, tr)" by (cases s)
  from h p have "(\<exists>out. fst (run_proc sys cmd w) = Completed out)
        \<or> (\<exists>err. fst (run_proc sys cmd w) = Raised (CalledProcessError err))"
    unfolding file_level_only_def by blast
  then show ?thesis
    by (auto simp: s run_ffmpeg_def subprocess_run_pair)
qed

lemma convert_video_no_raise:
  "file_level_only sys \<Longrightarrow> \<exists>oc. fst (convert_video sys ip op dflt s) = Inr oc"
  by (simp add: convert_video_def run_ffmpeg_no_raise split: prod.splits bool.splits option.splits)

lemma convert_audio_no_raise:
  "file_level_only sys \<Longrightarrow> \<exists>oc. fst (convert_audio sys ip op dflt s) = Inr oc"
  by (simp add: convert_audio_def run_ffmpeg_no_raise split: prod.splits bool.splits option.splits)

lemma convert_file_no_raise:
  assumes "file_level_only sys"
  shows "\<exists>oc. fst (convert_file sys ip op file_type forced dflt s) = Inr oc"
proof -
  from assms obtain output_exists
    where "path_exists sys (str_path op) (fst s) = Some output_exists"
    unfolding file_level_only_def by blast
  with assms show ?thesis
    by (simp add: convert_file_def convert_image_def run_ffmpeg_no_raise convert_video_no_raise
        convert_audio_no_raise)
qed

lemma tag_outcome_Inr:
  "fst r = Inr oc \<Longrightarrow> fst (tag_outcome ip r) = Inr [(str_path ip, oc)]"
  by (cases r) (simp add: tag_outcome_def)

lemma tag_outcome_state: "snd (tag_outcome ip r) = snd r"
  by (cases r) (simp add: tag_outcome_def split: sum.splits)

lemma convert_entry_done:
  assumes "file_level_only sys"
  shows "\<exists>finished. fst (convert_entry sys a dirpath filename s) = Inr finished
           \<and> map fst finished =
               (if recognised filename then [str_path \<lparr>p_dir = dirpath, p_name = filename\<rparr>] else [])"
proof (cases "recognised filename")
  case False
  then have "lower (name_suffix filename) \<notin> IMAGE_EXTS \<union> VIDEO_EXTS \<union> AUDIO_EXTS"
    by (simp add: recognised_def)
  then have "convert_entry sys a dirpath filename s = (Inr [], s)"
    by (rule convert_entry_other)
  with False show ?thesis by simp
next
  case True
  let ?ip = "\<lparr>p_dir = dirpath, p_name = filename\<rparr>"
  from True have "\<exists>op ft. convert_entry sys a dirpath filename s =
      tag_outcome ?ip (convert_file sys ?ip op ft (force a) (default_bitrate a) s)"
    unfolding recognised_def Un_iff
    using convert_entry_image [of filename sys a dirpath s]
      convert_entry_video [of filename sys a dirpath s]
      convert_entry_audio [of filename sys a dirpath s]
    by blast
  then obtain op ft where e: "convert_entry sys a dirpath filename s =
      tag_outcome ?ip (convert_file sys ?ip op ft (force a) (default_bitrate a) s)"
    by blast
  from assms obtain oc where "fst (convert_file sys ?ip op ft (force a) (default_bitrate a) s) = Inr oc"
    using convert_file_no_raise by blast
  then have "fst (convert_entry sys a dirpath filename s) = Inr [(str_path ?ip, oc)]"
    by (simp add: e tag_outcome_Inr)
  with True show ?thesis by simp
qed

lemma process_every_file_append:
  "process_every_file sys a (xs @ ys) s =
     (fst (process_every_file sys a xs s)
        @ fst (process_every_file sys a ys (snd (process_every_file sys a xs s))),
      snd (process_every_file sys a ys (snd (process_every_file sys a xs s))))"
proof (induction xs arbitrary: s)
  case Nil
  then show ?case by simp
next
  case (Cons x xs)
  obtain dirpath filename where x: "x = (dirpath, filename)"
    by (cases x)
  show ?case
    by (simp add: x Let_def Cons.IH split: prod.splits)
qed

lemma convert_filenames_every:
  assumes "file_level_only sys"
  shows "convert_filenames sys a dirpath filenames s =
     (Inr (fst (process_every_file sys a (map (\<lambda>filename. (dirpath, filename)) filenames) s)),
      snd (process_every_file sys a (map (\<lambda>filename. (dirpath, filename)) filenames) s))"
proof (induction filenames arbitrary: s)
  case Nil
  then show ?case by simp
next
  case (Cons filename filenames)
  obtain r1 s1 where c1: "convert_entry sys a dirpath filename s = (r1, s1)"
    by (cases "convert_entry sys a dirpath filename s")
  from convert_entry_done [OF assms, of a dirpath filename s] c1
  obtain finished where d1: "r1 = Inr finished"
    by auto
  show ?case
    by (simp add: c1 d1 Cons.IH Let_def split: prod.splits)
qed

lemma convert_tree_every:
  assumes "file_level_only sys"
  shows "convert_tree sys a tree s =
     (Inr (fst (process_every_file sys a (walk_entries tree) s)),
      snd (process_every_file sys a (walk_entries tree) s))"
proof (induction tree arbitrary: s)
  case Nil
  then show ?case by (simp add: walk_entries_def)
next
  case (Cons entry tree)
  obtain dirpath filenames where e: "entry = (dirpath, filenames)"
    by (cases entry)
  have w: "walk_entries ((dirpath, filenames) # tree) =
      map (\<lambda>filename. (dirpath, filename)) filenames @ walk_entries tree"
    by (simp add: walk_entries_def)
  show ?case
    by (simp add: e convert_filenames_every [OF assms] Cons.IH process_every_file_append w)
qed

lemma process_every_file_outcomes:
  assumes "file_level_only sys"
  shows "map fst (fst (process_every_file sys a entries s)) =
     map (\<lambda>(dirpath, filename). str_path \<lparr>p_dir = dirpath, p_name = filename\<rparr>)
       (filter (\<lambda>(dirpath, filename). recognised filename) entries)"
proof (induction entries arbitrary: s)
  case Nil
  then show ?case by simp
next
  case (Cons x xs)
  obtain dirpath filename where x: "x = (dirpath, filename)"
    by (cases x)
  obtain r1 s1 where c1: "convert_entry sys a dirpath filename s = (r1, s1)"
    by (cases "convert_entry sys a dirpath filename s")
  from convert_entry_done [OF assms, of a dirpath filename s] c1
  obtain finished where d1: "r1 = Inr finished"
    "map fst finished = (if recognised filename then [str_path \<lparr>p_dir = dirpath, p_name = filename\<rparr>] else [])"
    by auto
  obtain later s2 where c2: "process_every_file sys a xs s1 = (later, s2)"
    by (cases "process_every_file sys a xs s1")
  have "map fst later =
     map (\<lambda>(dirpath, filename). str_path \<lparr>p_dir = dirpath, p_name = filename\<rparr>)
       (filter (\<lambda>(dirpath, filename). recognised filename) xs)"
    using Cons.IH [of s1] c2 by simp
  then show ?case
    by (simp add: x c1 c2 d1 Let_def)
qed

lemma tasks_of_walk_entries:
  "tasks_of tree =
     map (\<lambda>(dirpath, filename). str_path \<lparr>p_dir = dirpath, p_name = filename\<rparr>)
       (filter (\<lambda>(dirpath, filename). recognised filename) (walk_entries tree))"
  by (induction tree) (auto simp: tasks_of_def walk_entries_def filter_map comp_def)

lemma run_ffmpeg_keeps:
  "e \<in> set (snd s) \<Longrightarrow> e \<in> set (snd (snd (run_ffmpeg sys cmd ip s)))"
  by (cases s)
     (simp add: run_ffmpeg_def subprocess_run_pair print_pair
       split: run_outcome.splits proc_error.splits)

lemma convert_image_keeps:
  "e \<in> set (snd s) \<Longrightarrow> e \<in> set (snd (snd (convert_image sys ip op s)))"
  by (simp add: convert_image_def run_ffmpeg_keeps print_trace)

lemma convert_image_notice:
  "Print (Msg_converting (str_path ip) (str_path op)) \<in> set (snd (snd (convert_image sys ip op s)))"
  by (simp add: convert_image_def run_ffmpeg_keeps print_trace)

lemma convert_video_events:
  "(e \<in> set (snd s) \<longrightarrow> e \<in> set (snd (snd (convert_video sys ip op dflt s))))
   \<and> Print (Msg_converting (str_path ip) (str_path op))
       \<in> set (snd (snd (convert_video sys ip op dflt s)))"
proof -
  obtain b s1 where h: "has_audio_stream sys (str_path ip) s = (b, s1)"
    by (cases "has_audio_stream sys (str_path ip) s")
  obtain pr s2 where g: "get_audio_bitrate sys (str_path ip) s1 = (pr, s2)"
    by (cases "get_audio_bitrate sys (str_path ip) s1")
  have t1: "snd s1 = snd s @ [Run (audio_streams_cmd (str_path ip))]"
    using has_audio_stream_trace [of sys "str_path ip" s] h by simp
  have t2: "snd s2 = snd s1 @ [Run (audio_bitrate_cmd (str_path ip))]"
    using get_audio_bitrate_trace [of sys "str_path ip" s1] g by simp
  show ?thesis
    by (cases b; cases pr)
       (simp_all add: convert_video_def h g t1 t2 run_ffmpeg_keeps print_trace)
qed

lemma convert_audio_events:
  "(e \<in> set (snd s) \<longrightarrow> e \<in> set (snd (snd (convert_audio sys ip op dflt s))))
   \<and> (Print (Msg_converting (str_path ip) (str_path op))
         \<in> set (snd (snd (convert_audio sys ip op dflt s)))
       \<or> Print (Msg_audio_no_stream (str_path ip))
         \<in> set (snd (snd (convert_audio sys ip op dflt s))))"
proof -
  obtain b s1 where h: "has_audio_stream sys (str_path ip) s = (b, s1)"
    by (cases "has_audio_stream sys (str_path ip) s")
  obtain pr s2 where g: "get_audio_bitrate sys (str_path ip) s1 = (pr, s2)"
    by (cases "get_audio_bitrate sys (str_path ip) s1")
  have t1: "snd s1 = snd s @ [Run (audio_streams_cmd (str_path ip))]"
    using has_audio_stream_trace [of sys "str_path ip" s] h by simp
  have t2: "snd s2 = snd s1 @ [Run (audio_bitrate_cmd (str_path ip))]"
    using get_audio_bitrate_trace [of sys "str_path ip" s1] g by simp
  show ?thesis
    by (cases b; cases pr)
       (simp_all add: convert_audio_def h g t1 t2 run_ffmpeg_keeps print_trace)
qed

lemma convert_file_keeps:
  "e \<in> set (snd s) \<Longrightarrow>
   e \<in> set (snd (snd (convert_file sys ip op file_type forced dflt s)))"
  using convert_video_events [of e s sys ip op dflt] convert_audio_events [of e s sys ip op dflt]
  by (simp add: convert_file_def convert_image_keeps print_trace split: option.splits)

lemma convert_file_notice:
  assumes "path_exists sys (str_path op) (fst s) = Some output_exists"
    and "file_type = ''image'' \<or> file_type = ''video'' \<or> file_type = ''audio''"
  shows "Print (Msg_skip_exists (str_path op))
           \<in> set (snd (snd (convert_file sys ip op file_type forced dflt s)))
         \<or> Print (Msg_converting (str_path ip) (str_path op))
           \<in> set (snd (snd (convert_file sys ip op file_type forced dflt s)))
         \<or> Print (Msg_audio_no_stream (str_path ip))
           \<in> set (snd (snd (convert_file sys ip op file_type forced dflt s)))"
proof (cases "output_exists \<and> \<not> forced")
  case True
  with assms(1) show ?thesis
    by (simp add: convert_file_def print_trace)
next
  case False
  with assms(1) have c: "convert_file sys ip op file_type forced dflt s =
     (if file_type = ''image'' then convert_image sys ip op s
      else if file_type = ''video'' then convert_video sys ip op dflt s
      else if file_type = ''audio'' then convert_audio sys ip op dflt s
      else (Inr Unknown_type, s))"
    by (rule convert_file_not_skipped)
  show ?thesis
    using assms(2) convert_image_notice [of ip op sys s]
      convert_video_events [of undefined s sys ip op dflt]
      convert_audio_events [of undefined s sys ip op dflt]
    unfolding c by auto
qed

lemma convert_entry_keeps:
  "e \<in> set (snd s) \<Longrightarrow> e \<in> set (snd (snd (convert_entry sys a dirpath filename s)))"
  by (simp add: convert_entry_def Let_def tag_outcome_state convert_file_keeps)

lemma convert_entry_handled:
  assumes "file_level_only sys" and "recognised filename"
  shows "handled (snd (snd (convert_entry sys a dirpath filename s))) dirpath filename"
proof -
  let ?ip = "\<lparr>p_dir = dirpath, p_name = filename\<rparr>"
  have ex: "\<exists>b. path_exists sys p (fst s) = Some b" for p
    using assms(1) unfolding file_level_only_def by blast
  from assms(2) have "\<exists>new ft. (new = ''.webp'' \<or> new = ''.webm'')
      \<and> (ft = ''image'' \<or> ft = ''video'' \<or> ft = ''audio'')
      \<and> convert_entry sys a dirpath filename s =
      tag_outcome ?ip (convert_file sys ?ip (with_suffix ?ip new) ft (force a) (default_bitrate a) s)"
    unfolding recognised_def Un_iff
    using ext_disjoint
    by (auto simp add: convert_entry_def Let_def suffix_def)
  then obtain new ft where n: "new = ''.webp'' \<or> new = ''.webm''"
    and f: "ft = ''image'' \<or> ft = ''video'' \<or> ft = ''audio''"
    and e: "convert_entry sys a dirpath filename s =
      tag_outcome ?ip (convert_file sys ?ip (with_suffix ?ip new) ft (force a) (default_bitrate a) s)"
    by blast
  obtain b where "path_exists sys (str_path (with_suffix ?ip new)) (fst s) = Some b"
    using ex by blast
  from convert_file_notice [OF this f, of ?ip "force a" "default_bitrate a"] n
  show ?thesis
    by (auto simp add: e tag_outcome_state handled_def task_notices_def Let_def)
qed

lemma handled_keeps:
  "handled tr dirpath filename \<Longrightarrow> (\<And>e. e \<in> set tr \<Longrightarrow> e \<in> set tr') \<Longrightarrow>
   handled tr' dirpath filename"
  by (auto simp add: handled_def list_ex_iff)

lemma process_every_file_keeps:
  "e \<in> set (snd s) \<Longrightarrow> e \<in> set (snd (snd (process_every_file sys a entries s)))"
proof (induction entries arbitrary: s)
  case Nil
  then show ?case by simp
next
  case (Cons x xs)
  obtain dirpath filename where x: "x = (dirpath, filename)"
    by (cases x)
  obtain later s2 where c2:
    "process_every_file sys a xs (snd (convert_entry sys a dirpath filename s)) = (later, s2)"
    by (cases "process_every_file sys a xs (snd (convert_entry sys a dirpath filename s))")
  from Cons.prems have "e \<in> set (snd (snd (convert_entry sys a dirpath filename s)))"
    by (rule convert_entry_keeps)
  then have "e \<in> set (snd (snd (process_every_file sys a xs (snd (convert_entry sys a dirpath filename s)))))"
    by (rule Cons.IH)
  then show ?case
    by (simp add: x c2 Let_def)
qed

lemma process_every_file_handled:
  assumes "file_level_only sys"
  shows "(dirpath, filename) \<in> set entries \<Longrightarrow> recognised filename \<Longrightarrow>
     handled (snd (snd (process_every_file sys a entries s))) dirpath filename"
proof (induction entries arbitrary: s)
  case Nil
  then show ?case by simp
next
  case (Cons x xs)
  obtain d f where x: "x = (d, f)"
    by (cases x)
  let ?s1 = "snd (convert_entry sys a d f s)"
  obtain later s2 where c2: "process_every_file sys a xs ?s1 = (later, s2)"
    by (cases "process_every_file sys a xs ?s1")
  have tr: "snd (snd (process_every_file sys a (x # xs) s)) = snd (snd (process_every_file sys a xs ?s1))"
    by (simp add: x c2 Let_def)
  show ?case
  proof (cases "(dirpath, filename) = (d, f)")
    case True
    with Cons.prems assms have "handled (snd ?s1) dirpath filename"
      using convert_entry_handled by blast
    then show ?thesis
      unfolding tr by (rule handled_keeps) (rule process_every_file_keeps)
  next
    case False
    with Cons.prems x have "(dirpath, filename) \<in> set xs"
      by auto
    then show ?thesis
      unfolding tr using Cons.prems(2) by (rule Cons.IH)
  qed
qed

lemma run_ffmpeg_failed:
  "fst (run_proc sys cmd (fst s)) = Raised (CalledProcessError err) \<Longrightarrow>
   run_ffmpeg sys cmd input_path s =
     (Inr Failed,
      (snd (run_proc sys cmd (fst s)),
       snd s @ [Run cmd, Print (Msg_convert_error (str_path input_path) err)]))"
  by (cases s) (simp add: run_ffmpeg_def subprocess_run_pair print_pair)

lemma main_after_check:
  "check_ffmpeg sys (w, []) = (Inr u, s1) \<Longrightarrow>
   path_resolve sys (input_dir a) (fst s1) = Some root_dir \<Longrightarrow>
   path_is_dir sys root_dir (fst s1) = Some True \<Longrightarrow>
   main sys a w =
     (case convert_tree sys a (os_walk sys root_dir (fst s1)) (fst s1, snd s1 @ [Walk root_dir]) of
        (Inl e, s2) \<Rightarrow> (Inl (Uncaught e), s2)
      | (Inr finished, s2) \<Rightarrow> (Inr finished, s2))"
  by (simp add: main_def)

text \<open>
  Claim C7. When the transcoder exits with a non-zero status, \<open>convert_file\<close> prints the
  captured error text and returns: the file is marked failed and nothing is raised.
  In a run whose dependency check passes, whose root is a directory and in which the only
  failures are such exits of the transcoder (the transcoder raises nothing but
  \<open>CalledProcessError\<close>, and no query of the file system raises), the loops of \<open>main\<close> do
  what \<open>process_every_file\<close> says: every file of the walk is handled in its turn, from the
  state that the file before it left, whether or not that file failed. So the outcomes are
  those of all the files with a recognised extension, in the order of the walk, each of
  these files has its notice among the events of the run, and the exit status of the
  process is 0.
\<close>

theorem file_failures_do_not_stop_the_run:
  "(fst (run_proc sys cmd (fst s)) = Raised (CalledProcessError err) \<longrightarrow>
      run_ffmpeg sys cmd input_path s =
        (Inr Failed,
         (snd (run_proc sys cmd (fst s)),
          snd s @ [Run cmd, Print (Msg_convert_error (str_path input_path) err)])))
   \<and> (let s1 = snd (check_ffmpeg sys (w, []));
           tree = os_walk sys root_dir (fst s1);
           every = process_every_file sys a (walk_entries tree) (fst s1, snd s1 @ [Walk root_dir])
       in file_level_only sys
          \<and> fst (check_ffmpeg sys (w, [])) = Inr ()
          \<and> path_resolve sys (input_dir a) (fst s1) = Some root_dir
          \<and> path_is_dir sys root_dir (fst s1) = Some True
          \<longrightarrow> main sys a w = (Inr (fst every), snd every)
              \<and> map fst (fst every) = tasks_of tree
              \<and> (\<forall>(dirpath, filename) \<in> set (walk_entries tree).
                    recognised filename \<longrightarrow> handled (snd (snd (main sys a w))) dirpath filename)
              \<and> exit_code (fst (main sys a w)) = 0)"
proof (intro conjI impI)
  assume "fst (run_proc sys cmd (fst s)) = Raised (CalledProcessError err)"
  then show "run_ffmpeg sys cmd input_path s =
        (Inr Failed,
         (snd (run_proc sys cmd (fst s)),
          snd s @ [Run cmd, Print (Msg_convert_error (str_path input_path) err)]))"
    by (rule run_ffmpeg_failed)
next
  let ?s1 = "snd (check_ffmpeg sys (w, []))"
  let ?tree = "os_walk sys root_dir (fst ?s1)"
  let ?every = "process_every_file sys a (walk_entries ?tree) (fst ?s1, snd ?s1 @ [Walk root_dir])"
  have "file_level_only sys
          \<and> fst (check_ffmpeg sys (w, [])) = Inr ()
          \<and> path_resolve sys (input_dir a) (fst ?s1) = Some root_dir
          \<and> path_is_dir sys root_dir (fst ?s1) = Some True
          \<longrightarrow> main sys a w = (Inr (fst ?every), snd ?every)
              \<and> map fst (fst ?every) = tasks_of ?tree
              \<and> (\<forall>(dirpath, filename) \<in> set (walk_entries ?tree).
                    recognised filename \<longrightarrow> handled (snd (snd (main sys a w))) dirpath filename)
              \<and> exit_code (fst (main sys a w)) = 0"
  proof (intro impI)
    assume h: "file_level_only sys
          \<and> fst (check_ffmpeg sys (w, [])) = Inr ()
          \<and> path_resolve sys (input_dir a) (fst ?s1) = Some root_dir
          \<and> path_is_dir sys root_dir (fst ?s1) = Some True"
    then have fl: "file_level_only sys"
      by simp
    from h have c: "check_ffmpeg sys (w, []) = (Inr (), ?s1)"
      by (metis prod.collapse)
    from h have m: "main sys a w = (Inr (fst ?every), snd ?every)"
      using main_after_check [OF c, of a root_dir] by (simp add: convert_tree_every [OF fl])
    have t: "map fst (fst ?every) = tasks_of ?tree"
      by (simp only: process_every_file_outcomes [OF fl] tasks_of_walk_entries)
    have n: "\<forall>(dirpath, filename) \<in> set (walk_entries ?tree).
                    recognised filename \<longrightarrow> handled (snd (snd (main sys a w))) dirpath filename"
      using process_every_file_handled [OF fl] by (auto simp add: m)
    show "main sys a w = (Inr (fst ?every), snd ?every)
              \<and> map fst (fst ?every) = tasks_of ?tree
              \<and> (\<forall>(dirpath, filename) \<in> set (walk_entries ?tree).
                    recognised filename \<longrightarrow> handled (snd (snd (main sys a w))) dirpath filename)
              \<and> exit_code (fst (main sys a w)) = 0"
      using m t n by (simp add: exit_code_def)
  qed
  then show "let s1 = snd (check_ffmpeg sys (w, []));
           tree = os_walk sys root_dir (fst s1);
           every = process_every_file sys a (walk_entries tree) (fst s1, snd s1 @ [Walk root_dir])
       in file_level_only sys
          \<and> fst (check_ffmpeg sys (w, [])) = Inr ()
          \<and> path_resolve sys (input_dir a) (fst s1) = Some root_dir
          \<and> path_is_dir sys root_dir (fst s1) = Some True
          \<longrightarrow> main sys a w = (Inr (fst every), snd every)
              \<and> map fst (fst every) = tasks_of tree
              \<and> (\<forall>(dirpath, filename) \<in> set (walk_entries tree).
                    recognised filename \<longrightarrow> handled (snd (snd (main sys a w))) dirpath filename)
              \<and> exit_code (fst (main sys a w)) = 0"
    unfolding Let_def .
qed

theorem file_failures_do_not_stop_the_run_witness:
  "run_ffmpeg (fixed_system (failing_for ''/d/a.png'') [] [(''/d'', [''a.png'', ''notes.txt'', ''b.png''])])
      (image_cmd \<lparr>p_dir = ''/d'', p_name = ''a.png''\<rparr> \<lparr>p_dir = ''/d'', p_name = ''a.webp''\<rparr>)
      \<lparr>p_dir = ''/d'', p_name = ''a.png''\<rparr> ((), [])
     = (Inr Failed,
        ((), [Run (image_cmd \<lparr>p_dir = ''/d'', p_name = ''a.png''\<rparr> \<lparr>p_dir = ''/d'', p_name = ''a.webp''\<rparr>),
              Print (Msg_convert_error ''/d/a.png'' ''Invalid data found when processing input'')]))
   \<and> main (fixed_system (failing_for ''/d/a.png'') [] [(''/d'', [''a.png'', ''notes.txt'', ''b.png''])])
        \<lparr>input_dir = ''/d'', force = False, default_bitrate = ''128k''\<rparr> ()
     = (Inr [(''/d/a.png'', Failed), (''/d/b.png'', Converted)],
        ((), [Run [''ffmpeg'', ''-version''], Run [''ffprobe'', ''-version''], Walk ''/d'',
              Print (Msg_converting ''/d/a.png'' ''/d/a.webp''),
              Run [''ffmpeg'', ''-i'', ''/d/a.png'', ''-c:v'', ''libwebp'', ''-lossless'', ''1'',
                   ''-compression_level'', ''6'', ''-loop'', ''0'', ''-an'', ''-y'', ''/d/a.webp''],
              Print (Msg_convert_error ''/d/a.png'' ''Invalid data found when processing input''),
              Print (Msg_converting ''/d/b.png'' ''/d/b.webp''),
              Run [''ffmpeg'', ''-i'', ''/d/b.png'', ''-c:v'', ''libwebp'', ''-lossless'', ''1'',
                   ''-compression_level'', ''6'', ''-loop'', ''0'', ''-an'', ''-y'', ''/d/b.webp'']]))
   \<and> handled (snd (snd (main (fixed_system (failing_for ''/d/a.png'') [] [(''/d'', [''a.png'', ''notes.txt'', ''b.png''])])
        \<lparr>input_dir = ''/d'', force = False, default_bitrate = ''128k''\<rparr> ()))) ''/d'' ''b.png''
   \<and> exit_code (fst (main (fixed_system (failing_for ''/d/a.png'') [] [(''/d'', [''a.png'', ''notes.txt'', ''b.png''])])
            \<lparr>input_dir = ''/d'', force = False, default_bitrate = ''128k''\<rparr> ())) = 0"
proof -
  let ?tree = "[(''/d'', [''a.png'', ''notes.txt'', ''b.png''])]"
  let ?S = "fixed_system (failing_for ''/d/a.png'') [] ?tree"
  let ?A = "\<lparr>input_dir = ''/d'', force = False, default_bitrate = ''128k''\<rparr>"
  let ?ip = "\<lparr>p_dir = ''/d'', p_name = ''a.png''\<rparr>"
  let ?cmd = "image_cmd ?ip \<lparr>p_dir = ''/d'', p_name = ''a.webp''\<rparr>"
  let ?s1 = "(Inr () :: abort + unit, ((), [Run [''ffmpeg'', ''-version''], Run [''ffprobe'', ''-version'']]))"
  note t = file_failures_do_not_stop_the_run [where sys = ?S and a = ?A and w = "()"
      and cmd = ?cmd and s = "((), [])" and input_path = ?ip and root_dir = "''/d''"
      and err = "''Invalid data found when processing input''"]
  have h: "file_level_only ?S"
    by (auto simp: file_level_only_def fixed_system_def failing_for_def)
  have c: "check_ffmpeg ?S ((), []) = ?s1"
    by code_simp
  have d: "path_resolve ?S ''/d'' () = Some ''/d''"
    "path_is_dir ?S ''/d'' () = Some True"
    "os_walk ?S ''/d'' () = ?tree"
    by (simp_all add: fixed_system_def)
  have r: "fst (run_proc ?S ?cmd (fst ((), []))) = Raised (CalledProcessError ''Invalid data found when processing input'')"
    by (simp add: fixed_system_def failing_for_def image_cmd_def paths_ex)
  have e: "process_every_file ?S ?A (walk_entries ?tree)
             ((), [Run [''ffmpeg'', ''-version''], Run [''ffprobe'', ''-version'']] @ [Walk ''/d''])
     = ([(''/d/a.png'', Failed), (''/d/b.png'', Converted)],
        ((), [Run [''ffmpeg'', ''-version''], Run [''ffprobe'', ''-version''], Walk ''/d'',
              Print (Msg_converting ''/d/a.png'' ''/d/a.webp''),
              Run [''ffmpeg'', ''-i'', ''/d/a.png'', ''-c:v'', ''libwebp'', ''-lossless'', ''1'',
                   ''-compression_level'', ''6'', ''-loop'', ''0'', ''-an'', ''-y'', ''/d/a.webp''],
              Print (Msg_convert_error ''/d/a.png'' ''Invalid data found when processing input''),
              Print (Msg_converting ''/d/b.png'' ''/d/b.webp''),
              Run [''ffmpeg'', ''-i'', ''/d/b.png'', ''-c:v'', ''libwebp'', ''-lossless'', ''1'',
                   ''-compression_level'', ''6'', ''-loop'', ''0'', ''-an'', ''-y'', ''/d/b.webp'']]))"
    by code_simp
  have b: "(''/d'', ''b.png'') \<in> set (walk_entries ?tree)" "recognised ''b.png''"
    by code_simp+
  have 1: "run_ffmpeg ?S ?cmd ?ip ((), [])
     = (Inr Failed, ((), [Run ?cmd, Print (Msg_convert_error ''/d/a.png'' ''Invalid data found when processing input'')]))"
    using t r by (simp add: paths_ex fixed_system_def)
  have hyp: "file_level_only ?S
     \<and> fst (check_ffmpeg ?S ((), [])) = Inr ()
     \<and> path_resolve ?S (input_dir ?A) (fst (snd (check_ffmpeg ?S ((), [])))) = Some ''/d''
     \<and> path_is_dir ?S ''/d'' (fst (snd (check_ffmpeg ?S ((), [])))) = Some True"
    using h by (simp add: c d)
  note all = t [unfolded Let_def, THEN conjunct2, THEN mp, OF hyp, unfolded c snd_conv fst_conv d e]
  from all have 2: "main ?S ?A () = (Inr [(''/d/a.png'', Failed), (''/d/b.png'', Converted)],
        ((), [Run [''ffmpeg'', ''-version''], Run [''ffprobe'', ''-version''], Walk ''/d'',
              Print (Msg_converting ''/d/a.png'' ''/d/a.webp''),
              Run [''ffmpeg'', ''-i'', ''/d/a.png'', ''-c:v'', ''libwebp'', ''-lossless'', ''1'',
                   ''-compression_level'', ''6'', ''-loop'', ''0'', ''-an'', ''-y'', ''/d/a.webp''],
              Print (Msg_convert_error ''/d/a.png'' ''Invalid data found when processing input''),
              Print (Msg_converting ''/d/b.png'' ''/d/b.webp''),
              Run [''ffmpeg'', ''-i'', ''/d/b.png'', ''-c:v'', ''libwebp'', ''-lossless'', ''1'',
                   ''-compression_level'', ''6'', ''-loop'', ''0'', ''-an'', ''-y'', ''/d/b.webp'']]))"
    by (rule conjunct1)
  from all b have 3: "handled (snd (snd (main ?S ?A ()))) ''/d'' ''b.png''"
    by blast
  from all have 4: "exit_code (fst (main ?S ?A ())) = 0"
    by blast
  from 1 2 3 4 show ?thesis by blast
qed

section \<open>The dependency check\<close>

lemma version_queries_append [simp]:
  "version_queries (xs @ ys) = version_queries xs @ version_queries ys"
  by (simp add: version_queries_def)

lemma version_queries_Cons [simp]:
  "version_queries (Run cmd # tr) =
     (if cmd = [''ffmpeg'', ''-version''] \<or> cmd = [''ffprobe'', ''-version'']
      then cmd # version_queries tr else version_queries tr)"
  "version_queries (Print m # tr) = version_queries tr"
  "version_queries (Walk d # tr) = version_queries tr"
  "version_queries [] = []"
  by (simp_all add: version_queries_def)

lemma cmd_not_version_query [simp]:
  "audio_streams_cmd p \<noteq> [''ffmpeg'', ''-version'']" "audio_streams_cmd p \<noteq> [''ffprobe'', ''-version'']"
  "audio_bitrate_cmd p \<noteq> [''ffmpeg'', ''-version'']" "audio_bitrate_cmd p \<noteq> [''ffprobe'', ''-version'']"
  "image_cmd ip op \<noteq> [''ffmpeg'', ''-version'']" "image_cmd ip op \<noteq> [''ffprobe'', ''-version'']"
  "video_audio_cmd ip op b \<noteq> [''ffmpeg'', ''-version'']" "video_audio_cmd ip op b \<noteq> [''ffprobe'', ''-version'']"
  "video_only_cmd ip op \<noteq> [''ffmpeg'', ''-version'']" "video_only_cmd ip op \<noteq> [''ffprobe'', ''-version'']"
  "audio_cmd ip op b \<noteq> [''ffmpeg'', ''-version'']" "audio_cmd ip op b \<noteq> [''ffprobe'', ''-version'']"
  by (simp_all add: audio_streams_cmd_def audio_bitrate_cmd_def image_cmd_def video_audio_cmd_def
      video_only_cmd_def audio_cmd_def)

lemma run_ffmpeg_version_queries:
  "cmd \<noteq> [''ffmpeg'', ''-version''] \<Longrightarrow> cmd \<noteq> [''ffprobe'', ''-version''] \<Longrightarrow>
   version_queries (snd (snd (run_ffmpeg sys cmd ip s))) = version_queries (snd s)"
  by (cases s)
     (simp add: run_ffmpeg_def subprocess_run_pair print_pair
       split: run_outcome.splits proc_error.splits)

lemma convert_image_version_queries:
  "version_queries (snd (snd (convert_image sys ip op s))) = version_queries (snd s)"
  by (simp add: convert_image_def run_ffmpeg_version_queries print_trace)

lemma convert_video_version_queries:
  "version_queries (snd (snd (convert_video sys ip op dflt s))) = version_queries (snd s)"
proof -
  obtain b s1 where h: "has_audio_stream sys (str_path ip) s = (b, s1)"
    by (cases "has_audio_stream sys (str_path ip) s")
  obtain pr s2 where g: "get_audio_bitrate sys (str_path ip) s1 = (pr, s2)"
    by (cases "get_audio_bitrate sys (str_path ip) s1")
  have t1: "snd s1 = snd s @ [Run (audio_streams_cmd (str_path ip))]"
    using has_audio_stream_trace [of sys "str_path ip" s] h by simp
  have t2: "snd s2 = snd s1 @ [Run (audio_bitrate_cmd (str_path ip))]"
    using get_audio_bitrate_trace [of sys "str_path ip" s1] g by simp
  show ?thesis
    by (cases b; cases pr)
       (simp_all add: convert_video_def h g t1 t2 run_ffmpeg_version_queries print_trace)
qed

lemma convert_audio_version_queries:
  "version_queries (snd (snd (convert_audio sys ip op dflt s))) = version_queries (snd s)"
proof -
  obtain b s1 where h: "has_audio_stream sys (str_path ip) s = (b, s1)"
    by (cases "has_audio_stream sys (str_path ip) s")
  obtain pr s2 where g: "get_audio_bitrate sys (str_path ip) s1 = (pr, s2)"
    by (cases "get_audio_bitrate sys (str_path ip) s1")
  have t1: "snd s1 = snd s @ [Run (audio_streams_cmd (str_path ip))]"
    using has_audio_stream_trace [of sys "str_path ip" s] h by simp
  have t2: "snd s2 = snd s1 @ [Run (audio_bitrate_cmd (str_path ip))]"
    using get_audio_bitrate_trace [of sys "str_path ip" s1] g by simp
  show ?thesis
    by (cases b; cases pr)
       (simp_all add: convert_audio_def h g t1 t2 run_ffmpeg_version_queries print_trace)
qed

lemma convert_file_version_queries:
  "version_queries (snd (snd (convert_file sys ip op file_type forced dflt s))) =
     version_queries (snd s)"
  by (simp add: convert_file_def convert_image_version_queries convert_video_version_queries
      convert_audio_version_queries print_trace split: option.splits)

lemma convert_entry_version_queries:
  "version_queries (snd (snd (convert_entry sys a dirpath filename s))) = version_queries (snd s)"
  by (simp add: convert_entry_def Let_def tag_outcome_state convert_file_version_queries)

lemma convert_filenames_version_queries:
  "version_queries (snd (snd (convert_filenames sys a dirpath filenames s))) =
     version_queries (snd s)"
proof (induction filenames arbitrary: s)
  case Nil
  then show ?case by simp
next
  case (Cons filename filenames)
  obtain r1 s1 where c1: "convert_entry sys a dirpath filename s = (r1, s1)"
    by (cases "convert_entry sys a dirpath filename s")
  obtain r2 s2 where c2: "convert_filenames sys a dirpath filenames s1 = (r2, s2)"
    by (cases "convert_filenames sys a dirpath filenames s1")
  have v1: "version_queries (snd s1) = version_queries (snd s)"
    using convert_entry_version_queries [of sys a dirpath filename s] c1 by simp
  have v2: "version_queries (snd s2) = version_queries (snd s1)"
    using Cons.IH [of s1] c2 by simp
  show ?case
    by (cases r1; cases r2) (simp_all add: c1 c2 v1 v2)
qed

lemma convert_tree_version_queries:
  "version_queries (snd (snd (convert_tree sys a tree s))) = version_queries (snd s)"
proof (induction tree arbitrary: s)
  case Nil
  then show ?case by simp
next
  case (Cons entry tree)
  obtain dirpath filenames where e: "entry = (dirpath, filenames)"
    by (cases entry)
  obtain r1 s1 where c1: "convert_filenames sys a dirpath filenames s = (r1, s1)"
    by (cases "convert_filenames sys a dirpath filenames s")
  obtain r2 s2 where c2: "convert_tree sys a tree s1 = (r2, s2)"
    by (cases "convert_tree sys a tree s1")
  have v1: "version_queries (snd s1) = version_queries (snd s)"
    using convert_filenames_version_queries [of sys a dirpath filenames s] c1 by simp
  have v2: "version_queries (snd s2) = version_queries (snd s1)"
    using Cons.IH [of s1] c2 by simp
  show ?case
    by (cases r1; cases r2) (simp_all add: e c1 c2 v1 v2)
qed

lemma check_ffmpeg_version_queries:
  "version_queries (snd (snd (check_ffmpeg sys (w, [])))) =
     (if \<exists>out. fst (run_proc sys [''ffmpeg'', ''-version''] w) = Completed out
      then [[''ffmpeg'', ''-version''], [''ffprobe'', ''-version'']]
      else [[''ffmpeg'', ''-version'']])"
  by (simp add: check_ffmpeg_def check_handler_def subprocess_run_pair print_pair
      split: run_outcome.splits proc_error.splits)

lemma main_version_queries:
  "version_queries (snd (snd (main sys a w))) =
     version_queries (snd (snd (check_ffmpeg sys (w, []))))"
proof -
  obtain r1 s1 where c: "check_ffmpeg sys (w, []) = (r1, s1)"
    by (cases "check_ffmpeg sys (w, [])")
  have v: "version_queries (snd (snd (convert_tree sys a tree (fst s1, snd s1 @ [Walk root])))) =
      version_queries (snd s1)" for tree root
    by (simp add: convert_tree_version_queries)
  show ?thesis
    by (cases r1)
       (simp_all add: main_def c v print_trace split: option.splits prod.splits sum.splits,
        (metis v snd_conv)+)
qed

lemma main_first_tool_missing:
  "fst (run_proc sys [''ffmpeg'', ''-version''] w) = Raised FileNotFoundError
     \<or> (\<exists>err. fst (run_proc sys [''ffmpeg'', ''-version''] w) = Raised (CalledProcessError err)) \<Longrightarrow>
   main sys a w =
     (Inl (SysExit 1),
      (snd (run_proc sys [''ffmpeg'', ''-version''] w),
       [Run [''ffmpeg'', ''-version''], Print Msg_tools_missing]))"
  by (auto simp: main_def check_ffmpeg_def check_handler_def subprocess_run_pair print_pair)

lemma main_second_tool_missing:
  "fst (run_proc sys [''ffmpeg'', ''-version''] w) = Completed out \<Longrightarrow>
   fst (run_proc sys [''ffprobe'', ''-version''] (snd (run_proc sys [''ffmpeg'', ''-version''] w)))
       = Raised FileNotFoundError
     \<or> (\<exists>err. fst (run_proc sys [''ffprobe'', ''-version'']
                      (snd (run_proc sys [''ffmpeg'', ''-version''] w)))
               = Raised (CalledProcessError err)) \<Longrightarrow>
   main sys a w =
     (Inl (SysExit 1),
      (snd (run_proc sys [''ffprobe'', ''-version''] (snd (run_proc sys [''ffmpeg'', ''-version''] w))),
       [Run [''ffmpeg'', ''-version''], Run [''ffprobe'', ''-version''], Print Msg_tools_missing]))"
  by (auto simp: main_def check_ffmpeg_def check_handler_def subprocess_run_pair print_pair)

text \<open>
  Claim C8. When the version query of the transcoder, or after it that of the probing
  tool, finds the tool missing or exits with a non-zero status, the run prints the
  diagnostic and ends with exit status 1: the events of the run are the queries and the
  diagnostic only, so no directory is walked and no file is converted. In every run the
  version queries are those of the dependency check: each is made at most once.
\<close>

theorem missing_tool_aborts_the_run:
  "(let v1 = [''ffmpeg'', ''-version''];
        v2 = [''ffprobe'', ''-version''];
        r1 = run_proc sys v1 w;
        r2 = run_proc sys v2 (snd r1);
        failed = (\<lambda>r. r = Raised FileNotFoundError \<or> (\<exists>err. r = Raised (CalledProcessError err)))
    in (failed (fst r1) \<longrightarrow>
          main sys a w = (Inl (SysExit 1), (snd r1, [Run v1, Print Msg_tools_missing]))
          \<and> exit_code (fst (main sys a w)) = 1)
     \<and> ((\<exists>out. fst r1 = Completed out) \<and> failed (fst r2) \<longrightarrow>
          main sys a w = (Inl (SysExit 1), (snd r2, [Run v1, Run v2, Print Msg_tools_missing]))
          \<and> exit_code (fst (main sys a w)) = 1)
     \<and> version_queries (snd (snd (main sys a w))) =
          (if \<exists>out. fst r1 = Completed out then [v1, v2] else [v1]))"
  unfolding Let_def
proof (intro conjI impI)
  assume h: "fst (run_proc sys [''ffmpeg'', ''-version''] w) = Raised FileNotFoundError
     \<or> (\<exists>err. fst (run_proc sys [''ffmpeg'', ''-version''] w) = Raised (CalledProcessError err))"
  then show m: "main sys a w =
     (Inl (SysExit 1),
      (snd (run_proc sys [''ffmpeg'', ''-version''] w),
       [Run [''ffmpeg'', ''-version''], Print Msg_tools_missing]))"
    by (rule main_first_tool_missing)
  then show "exit_code (fst (main sys a w)) = 1"
    by (simp add: exit_code_def)
next
  assume h: "(\<exists>out. fst (run_proc sys [''ffmpeg'', ''-version''] w) = Completed out)
    \<and> (fst (run_proc sys [''ffprobe'', ''-version''] (snd (run_proc sys [''ffmpeg'', ''-version''] w)))
       = Raised FileNotFoundError
     \<or> (\<exists>err. fst (run_proc sys [''ffprobe'', ''-version'']
                      (snd (run_proc sys [''ffmpeg'', ''-version''] w)))
               = Raised (CalledProcessError err)))"
  then obtain out where o: "fst (run_proc sys [''ffmpeg'', ''-version''] w) = Completed out"
    by blast
  from h have f: "fst (run_proc sys [''ffprobe'', ''-version''] (snd (run_proc sys [''ffmpeg'', ''-version''] w)))
       = Raised FileNotFoundError
     \<or> (\<exists>err. fst (run_proc sys [''ffprobe'', ''-version'']
                      (snd (run_proc sys [''ffmpeg'', ''-version''] w)))
               = Raised (CalledProcessError err))"
    by blast
  show m: "main sys a w =
     (Inl (SysExit 1),
      (snd (run_proc sys [''ffprobe'', ''-version''] (snd (run_proc sys [''ffmpeg'', ''-version''] w))),
       [Run [''ffmpeg'', ''-version''], Run [''ffprobe'', ''-version''], Print Msg_tools_missing]))"
    using o f by (rule main_second_tool_missing)
  then show "exit_code (fst (main sys a w)) = 1"
    by (simp add: exit_code_def)
next
  show "version_queries (snd (snd (main sys a w))) =
          (if \<exists>out. fst (run_proc sys [''ffmpeg'', ''-version''] w) = Completed out
           then [[''ffmpeg'', ''-version''], [''ffprobe'', ''-version'']]
           else [[''ffmpeg'', ''-version'']])"
    by (simp only: main_version_queries check_ffmpeg_version_queries)
qed

theorem missing_tool_aborts_the_run_witness:
  "main (fixed_system (missing_tool ''ffmpeg'') [] [(''/d'', [''a.png''])])
      \<lparr>input_dir = ''/d'', force = False, default_bitrate = ''128k''\<rparr> ()
     = (Inl (SysExit 1), ((), [Run [''ffmpeg'', ''-version''], Print Msg_tools_missing]))
   \<and> main (fixed_system (missing_tool ''ffprobe'') [] [(''/d'', [''a.png''])])
      \<lparr>input_dir = ''/d'', force = False, default_bitrate = ''128k''\<rparr> ()
     = (Inl (SysExit 1),
        ((), [Run [''ffmpeg'', ''-version''], Run [''ffprobe'', ''-version''], Print Msg_tools_missing]))
   \<and> exit_code (fst (main (fixed_system (missing_tool ''ffprobe'') [] [(''/d'', [''a.png''])])
      \<lparr>input_dir = ''/d'', force = False, default_bitrate = ''128k''\<rparr> ())) = 1
   \<and> version_queries (snd (snd (main (fixed_system (\<lambda>cmd. Completed []) [] [(''/d'', [''a.png''])])
      \<lparr>input_dir = ''/d'', force = False, default_bitrate = ''128k''\<rparr> ())))
     = [[''ffmpeg'', ''-version''], [''ffprobe'', ''-version'']]"
proof -
  let ?A = "\<lparr>input_dir = ''/d'', force = False, default_bitrate = ''128k''\<rparr>"
  note t = missing_tool_aborts_the_run [where a = ?A and w = "()"]
  have r: "fst (run_proc (fixed_system (missing_tool ''ffmpeg'') [] [(''/d'', [''a.png''])])
                 [''ffmpeg'', ''-version''] ()) = Raised FileNotFoundError"
    "fst (run_proc (fixed_system (missing_tool ''ffprobe'') [] [(''/d'', [''a.png''])])
                 [''ffmpeg'', ''-version''] ()) = Completed []"
    "fst (run_proc (fixed_system (missing_tool ''ffprobe'') [] [(''/d'', [''a.png''])])
                 [''ffprobe'', ''-version''] ()) = Raised FileNotFoundError"
    "fst (run_proc (fixed_system (\<lambda>cmd. Completed []) [] [(''/d'', [''a.png''])])
                 [''ffmpeg'', ''-version''] ()) = Completed []"
    by (simp_all add: fixed_system_def missing_tool_def)
  have 1: "main (fixed_system (missing_tool ''ffmpeg'') [] [(''/d'', [''a.png''])]) ?A ()
     = (Inl (SysExit 1), ((), [Run [''ffmpeg'', ''-version''], Print Msg_tools_missing]))"
    using t [where sys = "fixed_system (missing_tool ''ffmpeg'') [] [(''/d'', [''a.png''])]"] r(1)
    by (simp add: Let_def)
  have 2: "main (fixed_system (missing_tool ''ffprobe'') [] [(''/d'', [''a.png''])]) ?A ()
     = (Inl (SysExit 1),
        ((), [Run [''ffmpeg'', ''-version''], Run [''ffprobe'', ''-version''], Print Msg_tools_missing]))
     \<and> exit_code (fst (main (fixed_system (missing_tool ''ffprobe'') [] [(''/d'', [''a.png''])]) ?A ())) = 1"
    using t [where sys = "fixed_system (missing_tool ''ffprobe'') [] [(''/d'', [''a.png''])]"] r(2,3)
    by (simp add: Let_def exit_code_def)
  have 3: "version_queries (snd (snd (main (fixed_system (\<lambda>cmd. Completed []) [] [(''/d'', [''a.png''])]) ?A ())))
     = [[''ffmpeg'', ''-version''], [''ffprobe'', ''-version'']]"
    using t [where sys = "fixed_system (\<lambda>cmd. Completed []) [] [(''/d'', [''a.png''])]"] r(4)
    by (simp add: Let_def)
  from 1 2 3 show ?thesis by blast
qed

end
